theory Spec2Isabelle
  imports Main
begin

section \<open>Errors\<close>

text \<open>
  Every \<^verbatim>\<open>throw\<close> and every rejected promise of the source is a value of this type.
  \<open>PortExhausted startPort maxPort\<close> is the \<^verbatim>\<open>Error("No available ports found in range ...")\<close>
  of \<^verbatim>\<open>findAvailablePort\<close>; \<open>HealthTimeout port timeoutMs\<close> is the
  \<^verbatim>\<open>Error("Server on port ... did not start within ...ms")\<close> of \<^verbatim>\<open>waitForServer\<close>.
  The remaining constructors are failures of the runtime: a rejected \<^verbatim>\<open>fetch\<close>, a body
  that is not JSON, a property read on \<^verbatim>\<open>null\<close>, a failed \<^verbatim>\<open>execSync\<close>, a
  \<^verbatim>\<open>process.kill\<close> that throws.
\<close>

datatype error =
    PortExhausted int int
  | HealthTimeout int int
  | FetchFailed
  | SyntaxError
  | TypeError
  | ExecFailed
  | KillFailed

section \<open>Strings\<close>

text \<open>
  Text is a list of 8-bit characters. \<open>is_space\<close> is the class \<^verbatim>\<open>\s\<close> (also what
  \<^verbatim>\<open>trim\<close> strips) on these characters: tab, line feed, vertical tab, form feed,
  carriage return, space and the no-break space. \<open>is_digit\<close> is \<^verbatim>\<open>\d\<close>.
\<close>

definition is_space :: "char \<Rightarrow> bool" where
  "is_space c \<longleftrightarrow>
     c = CHR 0x09 \<or> c = CHR 0x0A \<or> c = CHR 0x0B \<or> c = CHR 0x0C \<or> c = CHR 0x0D \<or>
     c = CHR 0x20 \<or> c = CHR 0xA0"

definition is_digit :: "char \<Rightarrow> bool" where
  "is_digit c \<longleftrightarrow> c \<in> set ''0123456789''"

text \<open>The value of a digit is its place in the row of digits.\<close>

definition digit_val :: "char \<Rightarrow> int" where
  "digit_val c = int (length (takeWhile (\<lambda>d. d \<noteq> c) ''0123456789''))"

text \<open>\<^verbatim>\<open>s.startsWith(n)\<close> and \<^verbatim>\<open>s.includes(n)\<close>.\<close>

fun startsWith :: "string \<Rightarrow> string \<Rightarrow> bool" where
  "startsWith s [] = True"
| "startsWith [] (c # cs) = False"
| "startsWith (x # xs) (c # cs) = (x = c \<and> startsWith xs cs)"

fun str_includes :: "string \<Rightarrow> string \<Rightarrow> bool" where
  "str_includes [] n = (n = [])"
| "str_includes (x # xs) n = (startsWith (x # xs) n \<or> str_includes xs n)"

text \<open>\<^verbatim>\<open>s.split("\n")\<close>: always at least one piece.\<close>

fun split_lines :: "string \<Rightarrow> string list" where
  "split_lines [] = [[]]"
| "split_lines (c # cs) =
     (if c = CHR 0x0A then [] # split_lines cs
      else (case split_lines cs of
              [] \<Rightarrow> [[c]]
            | l # ls \<Rightarrow> (c # l) # ls))"

text \<open>
  \<^verbatim>\<open>parseInt(s, 10)\<close>: leading white space is skipped, one sign is read, then the longest
  run of digits; \<open>None\<close> is \<^verbatim>\<open>NaN\<close>. The value is the exact integer (the source's
  double is the same number below \<open>2^53\<close>, and above it rounding never moves a value across
  the bounds the source compares it with).
\<close>

definition dec_value :: "string \<Rightarrow> int" where
  "dec_value ds = foldl (\<lambda>a c. 10 * a + digit_val c) 0 ds"

definition parseInt10 :: "string \<Rightarrow> int option" where
  "parseInt10 s =
     (let t = dropWhile is_space s;
          neg = (case t of [] \<Rightarrow> False | c # r \<Rightarrow> c = CHR ''-'');
          u = (case t of [] \<Rightarrow> [] | c # r \<Rightarrow> if c = CHR ''-'' \<or> c = CHR ''+'' then r else t);
          ds = takeWhile is_digit u
      in if ds = [] then None
         else Some (if neg then - dec_value ds else dec_value ds))"

section \<open>Health probe\<close>

text \<open>
  The value \<^verbatim>\<open>response.json()\<close> resolves to. \<open>JObject\<close> lists the own properties of the
  parsed object, each key once.
\<close>

datatype json =
    JNull
  | JBool bool
  | JNumber int
  | JString string
  | JArray "json list"
  | JObject "(string \<times> json) list"

text \<open>
  What \<^verbatim>\<open>fetch\<close> does: it rejects (\<open>NetworkError\<close>), or it resolves to a response with
  a status code and a body; the body is \<open>None\<close> when it cannot be read as JSON, so that
  \<^verbatim>\<open>response.json()\<close> rejects. \<open>response_ok\<close> is \<^verbatim>\<open>response.ok\<close>.
\<close>

datatype fetch_result =
    NetworkError
  | Response int "json option"

definition response_ok :: "int \<Rightarrow> bool" where
  "response_ok st \<longleftrightarrow> 200 \<le> st \<and> st \<le> 299"

text \<open>
  \<^verbatim>\<open>data.healthy === true\<close>: reading a property of \<^verbatim>\<open>null\<close> throws, a primitive or an
  array has no such property, an object has it when it is among its own properties.
\<close>

fun healthy_field_is_true :: "json \<Rightarrow> error + bool" where
  "healthy_field_is_true JNull = Inl TypeError"
| "healthy_field_is_true (JObject props) = Inr (map_of props ''healthy'' = Some (JBool True))"
| "healthy_field_is_true (JBool b) = Inr False"
| "healthy_field_is_true (JNumber n) = Inr False"
| "healthy_field_is_true (JString s) = Inr False"
| "healthy_field_is_true (JArray xs) = Inr False"

text \<open>The body of the \<^verbatim>\<open>try\<close> block of \<^verbatim>\<open>checkHealth\<close>.\<close>

fun checkHealth_try :: "fetch_result \<Rightarrow> error + bool" where
  "checkHealth_try NetworkError = Inl FetchFailed"
| "checkHealth_try (Response st body) =
     (if response_ok st then
        (case body of
           None \<Rightarrow> Inl SyntaxError
         | Some data \<Rightarrow> healthy_field_is_true data)
      else Inr False)"

text \<open>\<^verbatim>\<open>checkHealth\<close>, with its \<^verbatim>\<open>catch\<close>; the argument is what the fetch of the port's
  health path did.\<close>

definition checkHealth :: "fetch_result \<Rightarrow> error + bool" where
  "checkHealth r = (case checkHealth_try r of Inl e \<Rightarrow> Inr False | Inr b \<Rightarrow> Inr b)"

definition isServerHealthy :: "fetch_result \<Rightarrow> error + bool" where
  "isServerHealthy r = checkHealth r"

text \<open>The health contract in the spec's words: a successful response whose body is an
  object with the field \<open>healthy\<close> equal to the boolean \<open>true\<close>.\<close>

fun reports_healthy :: "fetch_result \<Rightarrow> bool" where
  "reports_healthy (Response st (Some (JObject props))) =
     (response_ok st \<and> map_of props ''healthy'' = Some (JBool True))"
| "reports_healthy r = False"

section \<open>Port allocation\<close>

text \<open>
  What \<^verbatim>\<open>server.listen(port, "127.0.0.1")\<close> does: the \<^verbatim>\<open>listening\<close> event, or the
  \<^verbatim>\<open>error\<close> event with its code. The network is a function from the port to that.
\<close>

datatype listen_result =
    Listening
  | ListenError string

definition isPortAvailable :: "(int \<Rightarrow> listen_result) \<Rightarrow> int \<Rightarrow> bool" where
  "isPortAvailable net p =
     (case net p of
        ListenError code \<Rightarrow> (if code = ''EADDRINUSE'' then False else False)
      | Listening \<Rightarrow> True)"

text \<open>The \<^verbatim>\<open>for\<close> loop of \<^verbatim>\<open>findAvailablePort\<close>; \<open>None\<close> when it runs past \<open>maxPort\<close>.\<close>

function findAvailablePort_loop :: "(int \<Rightarrow> listen_result) \<Rightarrow> int \<Rightarrow> int \<Rightarrow> int option" where
  "findAvailablePort_loop net p maxPort =
     (if p \<le> maxPort then
        (if isPortAvailable net p then Some p
         else findAvailablePort_loop net (p + 1) maxPort)
      else None)"
  by pat_completeness auto
termination
  by (relation "measure (\<lambda>(net, p, maxPort). nat (maxPort + 1 - p))") auto

declare findAvailablePort_loop.simps [simp del]

definition findAvailablePort :: "(int \<Rightarrow> listen_result) \<Rightarrow> int \<Rightarrow> int \<Rightarrow> error + int" where
  "findAvailablePort net startPort maxPort =
     (case findAvailablePort_loop net startPort maxPort of
        Some p \<Rightarrow> Inr p
      | None \<Rightarrow> Inl (PortExhausted startPort maxPort))"

section \<open>Process table scans\<close>

text \<open>
  The match of \<^verbatim>\<open>/--port\s+(\d+)/\<close>: \<open>match_port_here\<close> tries it at the start of the
  text and gives the captured digits, \<open>match_port\<close> takes the leftmost position where it
  succeeds. Both quantifiers are greedy and their classes are disjoint, so no backtracking
  changes the result.
\<close>

definition match_port_here :: "string \<Rightarrow> string option" where
  "match_port_here s =
     (if startsWith s ''--port'' then
        (let rest = drop 6 s;
             ws = takeWhile is_space rest;
             ds = takeWhile is_digit (dropWhile is_space rest)
         in if ws \<noteq> [] \<and> ds \<noteq> [] then Some ds else None)
      else None)"

fun match_port :: "string \<Rightarrow> string option" where
  "match_port [] = None"
| "match_port (c # cs) =
     (case match_port_here (c # cs) of
        Some ds \<Rightarrow> Some ds
      | None \<Rightarrow> match_port cs)"

text \<open>Lines 69 to 77 of \<^verbatim>\<open>scanExistingOpenCodePorts\<close>: the number a line's
  \<^verbatim>\<open>--port\<close> argument parses to, for a line that passes the three \<^verbatim>\<open>includes\<close> tests.\<close>

definition port_argument :: "string \<Rightarrow> int option" where
  "port_argument line =
     (if str_includes line ''opencode serve'' \<and> str_includes line ''--port'' \<and> \<not> str_includes line ''grep''
      then (case match_port line of
              None \<Rightarrow> None
            | Some ds \<Rightarrow> parseInt10 ds)
      else None)"

text \<open>The body of the loop: the port pushed for a line, if any.\<close>

definition scan_line :: "string \<Rightarrow> int option" where
  "scan_line line =
     (case port_argument line of
        None \<Rightarrow> None
      | Some p \<Rightarrow> if 4000 \<le> p \<and> p \<le> 5000 then Some p else None)"

text \<open>\<^verbatim>\<open>scanExistingOpenCodePorts\<close>; the argument is what \<^verbatim>\<open>execSync("ps aux")\<close> did: it
  threw, which the \<^verbatim>\<open>catch\<close> turns into the empty list, or it returned the table.\<close>

definition scanExistingOpenCodePorts :: "error + string \<Rightarrow> int list" where
  "scanExistingOpenCodePorts ps =
     (case ps of
        Inl e \<Rightarrow> []
      | Inr psOutput \<Rightarrow> sort (List.map_filter scan_line (split_lines psOutput)))"

section \<open>The project registry\<close>

text \<open>
  \<^verbatim>\<open>ProjectEntry\<close> and the class \<^verbatim>\<open>ProjectRegistry\<close>. Time stamps are clock readings
  (the source stores their ISO text, which is never empty).
\<close>

datatype status = Starting | Running | Stopped | Error

record ProjectEntry =
  port :: int
  pid :: int
  status :: status
  hasTUI :: bool
  tmuxSession :: "string option"
  tmuxWindow :: "string option"
  tmuxPane :: "string option"
  sessionId :: "string option"
  startedAt :: int
  lastActivity :: int

type_synonym path = string

text \<open>One key of a \<^verbatim>\<open>Partial<ProjectEntry>\<close> object literal; the literal is the list of
  its keys.\<close>

datatype field_update =
    SetPort int
  | SetPid int
  | SetStatus status
  | SetHasTUI bool
  | SetTmuxSession "string option"
  | SetTmuxWindow "string option"
  | SetTmuxPane "string option"
  | SetSessionId "string option"
  | SetStartedAt int
  | SetLastActivity int

fun apply_update :: "field_update \<Rightarrow> ProjectEntry \<Rightarrow> ProjectEntry" where
  "apply_update (SetPort v) e = e\<lparr>port := v\<rparr>"
| "apply_update (SetPid v) e = e\<lparr>pid := v\<rparr>"
| "apply_update (SetStatus v) e = e\<lparr>status := v\<rparr>"
| "apply_update (SetHasTUI v) e = e\<lparr>hasTUI := v\<rparr>"
| "apply_update (SetTmuxSession v) e = e\<lparr>tmuxSession := v\<rparr>"
| "apply_update (SetTmuxWindow v) e = e\<lparr>tmuxWindow := v\<rparr>"
| "apply_update (SetTmuxPane v) e = e\<lparr>tmuxPane := v\<rparr>"
| "apply_update (SetSessionId v) e = e\<lparr>sessionId := v\<rparr>"
| "apply_update (SetStartedAt v) e = e\<lparr>startedAt := v\<rparr>"
| "apply_update (SetLastActivity v) e = e\<lparr>lastActivity := v\<rparr>"

text \<open>The name of a key, and whether the value under it is truthy: a number that is not
  zero, \<^verbatim>\<open>true\<close>, a text that is not empty.\<close>

fun update_key :: "field_update \<Rightarrow> string" where
  "update_key (SetPort v) = ''port''"
| "update_key (SetPid v) = ''pid''"
| "update_key (SetStatus v) = ''status''"
| "update_key (SetHasTUI v) = ''hasTUI''"
| "update_key (SetTmuxSession v) = ''tmuxSession''"
| "update_key (SetTmuxWindow v) = ''tmuxWindow''"
| "update_key (SetTmuxPane v) = ''tmuxPane''"
| "update_key (SetSessionId v) = ''sessionId''"
| "update_key (SetStartedAt v) = ''startedAt''"
| "update_key (SetLastActivity v) = ''lastActivity''"

definition text_truthy :: "string option \<Rightarrow> bool" where
  "text_truthy v = (case v of None \<Rightarrow> False | Some t \<Rightarrow> t \<noteq> [])"

fun update_truthy :: "field_update \<Rightarrow> bool" where
  "update_truthy (SetPort v) = (v \<noteq> 0)"
| "update_truthy (SetPid v) = (v \<noteq> 0)"
| "update_truthy (SetStatus v) = True"
| "update_truthy (SetHasTUI v) = v"
| "update_truthy (SetTmuxSession v) = text_truthy v"
| "update_truthy (SetTmuxWindow v) = text_truthy v"
| "update_truthy (SetTmuxPane v) = text_truthy v"
| "update_truthy (SetSessionId v) = text_truthy v"
| "update_truthy (SetStartedAt v) = True"
| "update_truthy (SetLastActivity v) = True"

text \<open>
  The store is a plain object, \<^verbatim>\<open>{}\<close>, that every method reads with
  \<^verbatim>\<open>this.registry[projectPath]\<close>: a read gives what the object holds under the key and,
  when it holds nothing there, what it inherits. An object that is held is either an entry
  with all its fields (\<open>Entry\<close>), or an object that \<^verbatim>\<open>update\<close> has spread together from a
  value that is no entry (\<open>Fragment\<close>): it has only the keys listed, a later one overriding
  an earlier one. The spread of a text also copies its characters under the keys
  \<^verbatim>\<open>0\<close>, \<^verbatim>\<open>1\<close> and so on; no read in the code looks under such a key, and they are left out.
\<close>

datatype entry_object =
    Entry ProjectEntry
  | Fragment "field_update list"

definition entry_fields :: "ProjectEntry \<Rightarrow> field_update list" where
  "entry_fields e =
     [SetPort (port e), SetPid (pid e), SetStatus (status e), SetHasTUI (hasTUI e),
      SetTmuxSession (tmuxSession e), SetTmuxWindow (tmuxWindow e), SetTmuxPane (tmuxPane e),
      SetSessionId (sessionId e), SetStartedAt (startedAt e), SetLastActivity (lastActivity e)]"

fun own_fields :: "entry_object \<Rightarrow> field_update list" where
  "own_fields (Entry e) = entry_fields e"
| "own_fields (Fragment keys) = keys"

text \<open>The own property of an object under a key, if it has one.\<close>

definition own_field :: "entry_object \<Rightarrow> string \<Rightarrow> field_update option" where
  "own_field obj key =
     (case filter (\<lambda>u. update_key u = key) (own_fields obj) of
        [] \<Rightarrow> None
      | u # us \<Rightarrow> Some (last (u # us)))"

text \<open>
  What a read of the store gives, as far as the code tells values apart: \<open>Undefined\<close> is
  \<^verbatim>\<open>undefined\<close> and every other falsy value (the code only tests \<^verbatim>\<open>!entry\<close>), \<open>Truthy\<close> a
  truthy value that is not an object of the store (an inherited function, the prototype
  \<^verbatim>\<open>Object.prototype\<close>, a number, \<^verbatim>\<open>true\<close>, a text), \<open>Stored\<close> an object of the store.
  \<open>value_port\<close>, \<open>value_pid\<close> and \<open>value_status\<close> are the reads \<^verbatim>\<open>entry.port\<close>,
  \<^verbatim>\<open>entry.pid\<close> and \<^verbatim>\<open>entry.status\<close>, with \<open>None\<close> for \<^verbatim>\<open>undefined\<close>.
\<close>

datatype jsvalue =
    Undefined
  | Truthy
  | Stored entry_object

definition value_port :: "jsvalue \<Rightarrow> int option" where
  "value_port v =
     (case v of
        Stored obj \<Rightarrow> (case own_field obj ''port'' of Some (SetPort n) \<Rightarrow> Some n | _ \<Rightarrow> None)
      | _ \<Rightarrow> None)"

definition value_pid :: "jsvalue \<Rightarrow> int option" where
  "value_pid v =
     (case v of
        Stored obj \<Rightarrow> (case own_field obj ''pid'' of Some (SetPid n) \<Rightarrow> Some n | _ \<Rightarrow> None)
      | _ \<Rightarrow> None)"

definition value_status :: "jsvalue \<Rightarrow> status option" where
  "value_status v =
     (case v of
        Stored obj \<Rightarrow> (case own_field obj ''status'' of Some (SetStatus st) \<Rightarrow> Some st | _ \<Rightarrow> None)
      | _ \<Rightarrow> None)"

text \<open>
  The state of the store is the map from a key to the object last assigned under it. An
  assignment under the key \<^verbatim>\<open>__proto__\<close> makes no property: it sets the prototype of the
  store, a read under that key gives the prototype back, and \<^verbatim>\<open>delete\<close> leaves it alone. So
  the binding of \<^verbatim>\<open>__proto__\<close> in the map is the prototype that was set, and no binding
  there says that the prototype is still \<^verbatim>\<open>Object.prototype\<close>.
\<close>

type_synonym registry = "path \<rightharpoonup> entry_object"

text \<open>The function-valued properties of \<^verbatim>\<open>Object.prototype\<close>, which every plain object
  inherits.\<close>

definition prototype_functions :: "string list" where
  "prototype_functions =
     [''constructor'', ''__defineGetter__'', ''__defineSetter__'', ''hasOwnProperty'',
      ''__lookupGetter__'', ''__lookupSetter__'', ''isPrototypeOf'', ''propertyIsEnumerable'',
      ''toString'', ''valueOf'', ''toLocaleString'']"

text \<open>A read under a key that the store does not hold itself: the prototype that was
  set, if any, is asked first, then \<^verbatim>\<open>Object.prototype\<close>.\<close>

definition inherited :: "registry \<Rightarrow> string \<Rightarrow> jsvalue" where
  "inherited reg key =
     (case (case reg ''__proto__'' of None \<Rightarrow> None | Some obj \<Rightarrow> own_field obj key) of
        Some u \<Rightarrow> if update_truthy u then Truthy else Undefined
      | None \<Rightarrow> if key \<in> set prototype_functions then Truthy else Undefined)"

text \<open>\<^verbatim>\<open>get\<close>, which is \<^verbatim>\<open>this.registry[projectPath]\<close>.\<close>

definition ProjectRegistry_get :: "registry \<Rightarrow> path \<Rightarrow> jsvalue" where
  "ProjectRegistry_get reg projectPath =
     (case reg projectPath of
        Some obj \<Rightarrow> Stored obj
      | None \<Rightarrow> if projectPath = ''__proto__'' then Truthy else inherited reg projectPath)"

text \<open>\<^verbatim>\<open>add\<close>: the entry's two time stamps are set to the clock reading \<open>now\<close>.\<close>

definition ProjectRegistry_add :: "int \<Rightarrow> path \<Rightarrow> ProjectEntry \<Rightarrow> registry \<Rightarrow> registry" where
  "ProjectRegistry_add now projectPath entry reg =
     reg(projectPath \<mapsto> Entry (entry\<lparr>startedAt := now, lastActivity := now\<rparr>))"

text \<open>\<^verbatim>\<open>update\<close>: nothing happens when the read is falsy; otherwise the updates are spread
  over what was read, \<open>lastActivity\<close> is set last, and the result is assigned under the key.
  A value that is no object of the store has no own enumerable property to spread.\<close>

definition ProjectRegistry_update :: "int \<Rightarrow> path \<Rightarrow> field_update list \<Rightarrow> registry \<Rightarrow> registry" where
  "ProjectRegistry_update now projectPath updates reg =
     (case ProjectRegistry_get reg projectPath of
        Undefined \<Rightarrow> reg
      | Truthy \<Rightarrow> reg(projectPath \<mapsto> Fragment (updates @ [SetLastActivity now]))
      | Stored (Entry existing) \<Rightarrow>
          reg(projectPath \<mapsto> Entry ((fold apply_update updates existing)\<lparr>lastActivity := now\<rparr>))
      | Stored (Fragment keys) \<Rightarrow>
          reg(projectPath \<mapsto> Fragment (keys @ updates @ [SetLastActivity now])))"

text \<open>\<^verbatim>\<open>remove\<close>: \<^verbatim>\<open>delete\<close> takes away what the store holds under the key, if anything.\<close>

definition ProjectRegistry_remove :: "path \<Rightarrow> registry \<Rightarrow> bool \<times> registry" where
  "ProjectRegistry_remove projectPath reg =
     (case ProjectRegistry_get reg projectPath of
        Undefined \<Rightarrow> (False, reg)
      | _ \<Rightarrow> (True, if projectPath = ''__proto__'' then reg else reg(projectPath := None)))"

section \<open>The supervisor's state\<close>

text \<open>
  \<open>registry\<close> and \<open>nextPort\<close> are the two fields of the registry object, \<open>processes\<close> is
  the map of tracked child processes (a handle is named by its pid). \<open>spawned\<close> lists the
  \<^verbatim>\<open>spawn\<close> calls made so far, each with its working directory and its \<^verbatim>\<open>--port\<close>
  argument; \<open>signals\<close> lists the calls of \<^verbatim>\<open>process.kill\<close> and of a handle's \<^verbatim>\<open>kill\<close>,
  each with the pid it aims at.
\<close>

datatype signal = SIGTERM | SIGKILL

record manager =
  registry :: registry
  nextPort :: int
  processes :: "path \<rightharpoonup> int"
  spawned :: "(path \<times> int) list"
  signals :: "(int \<times> signal) list"

definition initial_manager :: manager where
  "initial_manager =
     \<lparr>registry = Map.empty, nextPort = 4097, processes = Map.empty, spawned = [], signals = []\<rparr>"

text \<open>\<^verbatim>\<open>allocatePort\<close>; \<open>net\<close> is what the probes of this call meet.\<close>

definition allocatePort :: "(int \<Rightarrow> listen_result) \<Rightarrow> manager \<Rightarrow> (error + int) \<times> manager" where
  "allocatePort net s =
     (case findAvailablePort net (nextPort s) 4196 of
        Inl e \<Rightarrow> (Inl e, s)
      | Inr allocatedPort \<Rightarrow> (Inr allocatedPort, s\<lparr>nextPort := allocatedPort + 1\<rparr>))"

text \<open>\<^verbatim>\<open>initializePortAllocation\<close>; \<^verbatim>\<open>Math.max\<close> of a non-empty list is a fold.\<close>

definition initializePortAllocation :: "error + string \<Rightarrow> manager \<Rightarrow> manager" where
  "initializePortAllocation ps s =
     (case scanExistingOpenCodePorts ps of
        [] \<Rightarrow> s
      | p # rest \<Rightarrow>
          (let highestPort = fold max rest p
           in s\<lparr>nextPort := max 4097 (highestPort + 1)\<rparr>))"

section \<open>Attached terminal processes\<close>

text \<open>\<^verbatim>\<open>s.trim()\<close>, and \<^verbatim>\<open>s.split(/\s+/)\<close>: the text is cut at every maximal run of white
  space, so a run at either end leaves an empty piece there.\<close>

definition trim :: "string \<Rightarrow> string" where
  "trim s = rev (dropWhile is_space (rev (dropWhile is_space s)))"

fun split_ws :: "string \<Rightarrow> string list" where
  "split_ws [] = [[]]"
| "split_ws (c # cs) =
     (if is_space c then
        (case cs of
           [] \<Rightarrow> [] # split_ws cs
         | d # ds \<Rightarrow> if is_space d then split_ws cs else [] # split_ws cs)
      else (case split_ws cs of
              [] \<Rightarrow> [[c]]
            | l # ls \<Rightarrow> (c # l) # ls))"

text \<open>The decimal text of a number, as a template literal inserts it.\<close>

fun nat_toString :: "nat \<Rightarrow> string" where
  "nat_toString n =
     (if n < 10 then [''0123456789'' ! n]
      else nat_toString (n div 10) @ [''0123456789'' ! (n mod 10)])"

declare nat_toString.simps [simp del]

definition number_toString :: "int \<Rightarrow> string" where
  "number_toString i =
     (if i < 0 then CHR ''-'' # nat_toString (nat (- i)) else nat_toString (nat i))"

text \<open>What a template literal inserts for a port: its decimal text, or the word
  \<^verbatim>\<open>undefined\<close> when the value read from an entry is \<^verbatim>\<open>undefined\<close>.\<close>

definition template_port :: "int option \<Rightarrow> string" where
  "template_port prt = (case prt of None \<Rightarrow> ''undefined'' | Some n \<Rightarrow> number_toString n)"

text \<open>The body of the loop of \<^verbatim>\<open>getAttachProcessPIDs\<close>: the pid pushed for a line, if any.\<close>

definition attach_line_pid :: "int option \<Rightarrow> string \<Rightarrow> int option" where
  "attach_line_pid prt line =
     (if str_includes line ''opencode attach'' \<and>
         str_includes line (''http://localhost:'' @ template_port prt) \<and>
         \<not> str_includes line ''grep''
      then (let parts = split_ws (trim line)
            in if length parts \<ge> 2 then parseInt10 (parts ! 1) else None)
      else None)"

definition getAttachProcessPIDs :: "error + string \<Rightarrow> int option \<Rightarrow> int list" where
  "getAttachProcessPIDs ps prt =
     (case ps of
        Inl e \<Rightarrow> []
      | Inr psOutput \<Rightarrow> List.map_filter (attach_line_pid prt) (split_lines psOutput))"

text \<open>
  \<^verbatim>\<open>process.kill(pid, sig)\<close>: the call is recorded; \<open>os pid\<close> tells whether it returns or
  throws (the process is gone, or may not be signalled).
\<close>

definition process_kill :: "(int \<Rightarrow> bool) \<Rightarrow> int \<Rightarrow> signal \<Rightarrow> manager \<Rightarrow> (error + unit) \<times> manager" where
  "process_kill os target sig s =
     (if os target then Inr () else Inl KillFailed, s\<lparr>signals := signals s @ [(target, sig)]\<rparr>)"

text \<open>\<^verbatim>\<open>killAttachProcesses\<close>: each \<^verbatim>\<open>process.kill\<close> sits in its own \<^verbatim>\<open>try\<close>.\<close>

definition killAttachProcesses ::
  "error + string \<Rightarrow> (int \<Rightarrow> bool) \<Rightarrow> int option \<Rightarrow> manager \<Rightarrow> manager" where
  "killAttachProcesses ps os prt s =
     (let pids = getAttachProcessPIDs ps prt
      in if length pids = 0 then s
         else fold (\<lambda>target s'. case process_kill os target SIGTERM s' of
                                  (Inl e, s'') \<Rightarrow> s''
                                | (Inr u, s'') \<Rightarrow> s'') pids s)"

section \<open>The process supervisor\<close>

text \<open>
  The two listeners that \<^verbatim>\<open>startServer\<close> puts on every process it spawns (lines 255 to
  267); \<open>projectPath\<close> is the path of the call that spawned the process, \<open>now\<close> the clock
  when the listener runs, \<open>code\<close> the exit code (\<open>None\<close> for \<^verbatim>\<open>null\<close>).
\<close>

definition proc_on_error :: "int \<Rightarrow> path \<Rightarrow> manager \<Rightarrow> manager" where
  "proc_on_error now projectPath s =
     s\<lparr>registry := ProjectRegistry_update now projectPath [SetStatus Error] (registry s)\<rparr>"

definition proc_on_exit :: "int \<Rightarrow> path \<Rightarrow> int option \<Rightarrow> manager \<Rightarrow> manager" where
  "proc_on_exit now projectPath code s =
     (let s1 = s\<lparr>processes := (processes s)(projectPath := None)\<rparr>
      in s1\<lparr>registry :=
              ProjectRegistry_update now projectPath [SetStatus Stopped, SetSessionId None] (registry s1)\<rparr>)"

text \<open>
  \<^verbatim>\<open>waitForServer\<close>. The clock and the worker are given as the list of what the loop
  meets: one pair for each evaluation of the loop condition, holding the reading of
  \<^verbatim>\<open>Date.now()\<close> there and what the fetch of that round does. \<open>None\<close> says that the
  list ended with the loop still running.
\<close>

fun waitForServer_loop ::
  "int \<Rightarrow> int \<Rightarrow> int \<Rightarrow> (int \<times> fetch_result) list \<Rightarrow> (error + unit) option" where
  "waitForServer_loop prt timeoutMs start [] = None"
| "waitForServer_loop prt timeoutMs start ((t, r) # rest) =
     (if t - start < timeoutMs then
        (case isServerHealthy r of
           Inl e \<Rightarrow> Some (Inl e)
         | Inr healthy \<Rightarrow>
             if healthy then Some (Inr ())
             else waitForServer_loop prt timeoutMs start rest)
      else Some (Inl (HealthTimeout prt timeoutMs)))"

definition waitForServer :: "int \<Rightarrow> int \<Rightarrow> (int \<times> fetch_result) list \<Rightarrow> (error + unit) option" where
  "waitForServer prt start rounds = waitForServer_loop prt 15000 start rounds"

text \<open>
  What one call of \<^verbatim>\<open>startServer\<close> meets: \<open>probe\<close> is what a fetch of a port's health
  path does when the call begins (line 216), \<open>listen\<close> what binding a port does,
  \<open>spawn_pid\<close> the \<^verbatim>\<open>pid\<close> of the handle that \<^verbatim>\<open>spawn\<close> returns (\<open>None\<close> when the process
  could not be started), \<open>t_start\<close> and \<open>polls\<close> the clock and the rounds of
  \<^verbatim>\<open>waitForServer\<close>; \<open>t_cleanup\<close>, \<open>t_add\<close> and \<open>t_done\<close> are the clock at the registry
  writes of lines 220, 272 and 286 or 290.
\<close>

record start_env =
  probe :: "int \<Rightarrow> fetch_result"
  t_cleanup :: int
  listen :: "int \<Rightarrow> listen_result"
  spawn_pid :: "int option"
  t_add :: int
  t_start :: int
  polls :: "(int \<times> fetch_result) list"
  t_done :: int

text \<open>
  Lines 213 to 221: \<open>Inr (Some p)\<close> is the early \<^verbatim>\<open>return existing.port\<close>, \<open>Inr None\<close>
  says that the call goes on to line 223. The test \<^verbatim>\<open>existing && existing.status === "running"\<close>
  holds exactly when the value read has the status \<open>running\<close>. When that value has no
  port, the address that \<^verbatim>\<open>checkHealth\<close> fetches ends in \<^verbatim>\<open>localhost:undefined\<close>, which is
  no address: the fetch is rejected, so the probe says \<^verbatim>\<open>false\<close>.
\<close>

definition startServer_lookup ::
  "start_env \<Rightarrow> path \<Rightarrow> manager \<Rightarrow> (error + int option) \<times> manager" where
  "startServer_lookup env projectPath s =
     (let existing = ProjectRegistry_get (registry s) projectPath;
          cleaned = s\<lparr>registry :=
                       ProjectRegistry_update (t_cleanup env) projectPath [SetStatus Stopped] (registry s)\<rparr>
      in if value_status existing = Some Running then
           (case value_port existing of
              None \<Rightarrow> (Inr None, cleaned)
            | Some prt \<Rightarrow>
                (case isServerHealthy (probe env prt) of
                   Inl e \<Rightarrow> (Inl e, s)
                 | Inr healthy \<Rightarrow>
                     if healthy then (Inr (Some prt), s) else (Inr None, cleaned)))
         else (Inr None, s))"

text \<open>
  Lines 223 to 282, from the allocation of the port to \<^verbatim>\<open>registry.add\<close>. The \<^verbatim>\<open>spawn\<close>
  call is recorded in \<open>spawned\<close>. \<^verbatim>\<open>if (proc.pid)\<close> holds for a pid that is there and is
  not zero; the result holds the port and whether it held.
\<close>

definition startServer_spawn ::
  "start_env \<Rightarrow> path \<Rightarrow> manager \<Rightarrow> (error + int \<times> bool) \<times> manager" where
  "startServer_spawn env projectPath s =
     (case allocatePort (listen env) s of
        (Inl e, s1) \<Rightarrow> (Inl e, s1)
      | (Inr prt, s1) \<Rightarrow>
          (let s2 = s1\<lparr>spawned := spawned s1 @ [(projectPath, prt)]\<rparr>
           in case spawn_pid env of
                None \<Rightarrow> (Inr (prt, False), s2)
              | Some proc_pid \<Rightarrow>
                  if proc_pid \<noteq> 0 then
                    (let s3 = s2\<lparr>processes := (processes s2)(projectPath \<mapsto> proc_pid)\<rparr>
                     in (Inr (prt, True),
                         s3\<lparr>registry :=
                               ProjectRegistry_add (t_add env) projectPath
                                 \<lparr>port = prt, pid = proc_pid, status = Starting, hasTUI = False,
                                  tmuxSession = None, tmuxWindow = None, tmuxPane = None,
                                  sessionId = None, startedAt = t_add env,
                                  lastActivity = t_add env\<rparr>
                                 (registry s3)\<rparr>))
                  else (Inr (prt, False), s2)))"

text \<open>
  Lines 284 to 295, for a process that has a pid: the health poll and the registry write
  that follows it. \<open>None\<close> says that the rounds of the poll ended with the poll still
  running.
\<close>

definition startServer_wait ::
  "start_env \<Rightarrow> path \<Rightarrow> int \<Rightarrow> manager \<Rightarrow> ((error + int) \<times> manager) option" where
  "startServer_wait env projectPath prt s =
     (case waitForServer prt (t_start env) (polls env) of
        None \<Rightarrow> None
      | Some (Inr u) \<Rightarrow>
          Some (Inr prt,
                s\<lparr>registry :=
                    ProjectRegistry_update (t_done env) projectPath [SetStatus Running] (registry s)\<rparr>)
      | Some (Inl e) \<Rightarrow>
          Some (Inl e,
                s\<lparr>registry :=
                    ProjectRegistry_update (t_done env) projectPath [SetStatus Error] (registry s)\<rparr>))"

text \<open>\<^verbatim>\<open>startServer\<close>: \<open>Inl\<close> is a rejected promise, \<open>Inr\<close> the port it resolves to.\<close>

definition startServer ::
  "start_env \<Rightarrow> path \<Rightarrow> manager \<Rightarrow> ((error + int) \<times> manager) option" where
  "startServer env projectPath s =
     (case startServer_lookup env projectPath s of
        (Inl e, s1) \<Rightarrow> Some (Inl e, s1)
      | (Inr (Some prt), s1) \<Rightarrow> Some (Inr prt, s1)
      | (Inr None, s1) \<Rightarrow>
          (case startServer_spawn env projectPath s1 of
             (Inl e, s2) \<Rightarrow> Some (Inl e, s2)
           | (Inr (prt, has_pid), s2) \<Rightarrow>
               if has_pid then startServer_wait env projectPath prt s2
               else Some (Inr prt, s2)))"

text \<open>
  The events of the \<open>i\<close>-th process that was spawned: its listeners were made by the call
  that spawned it, for that call's path.
\<close>

definition exit_event :: "int \<Rightarrow> nat \<Rightarrow> int option \<Rightarrow> manager \<Rightarrow> manager" where
  "exit_event now i code s =
     (if i < length (spawned s) then proc_on_exit now (fst (spawned s ! i)) code s else s)"

definition error_event :: "int \<Rightarrow> nat \<Rightarrow> manager \<Rightarrow> manager" where
  "error_event now i s =
     (if i < length (spawned s) then proc_on_error now (fst (spawned s ! i)) s else s)"

text \<open>
  What one call of \<^verbatim>\<open>stopServer\<close> meets: the process table, whether \<^verbatim>\<open>process.kill\<close> on
  a pid returns or throws, what \<^verbatim>\<open>kill\<close> on a tracked handle does, and the clock.
  A handle's \<^verbatim>\<open>kill\<close> returns \<^verbatim>\<open>true\<close> (\<open>Delivered\<close>), returns \<^verbatim>\<open>false\<close> because the
  process is gone (\<open>NotDelivered\<close>), or emits the handle's \<^verbatim>\<open>error\<close> event before it
  returns \<^verbatim>\<open>false\<close> (\<open>ErrorEvent\<close>); for \<^verbatim>\<open>SIGTERM\<close> it does not throw.
\<close>

datatype kill_outcome = Delivered | NotDelivered | ErrorEvent

record stop_env =
  ps_aux :: "error + string"
  os_kill :: "int \<Rightarrow> bool"
  handle_kill :: "int \<Rightarrow> kill_outcome"
  clock :: int

text \<open>\<^verbatim>\<open>proc.kill("SIGTERM")\<close> on the handle tracked for \<open>projectPath\<close>.\<close>

definition proc_kill :: "stop_env \<Rightarrow> path \<Rightarrow> int \<Rightarrow> signal \<Rightarrow> manager \<Rightarrow> manager" where
  "proc_kill env projectPath proc sig s =
     (let s1 = s\<lparr>signals := signals s @ [(proc, sig)]\<rparr>
      in case handle_kill env proc of
           Delivered \<Rightarrow> s1
         | NotDelivered \<Rightarrow> s1
         | ErrorEvent \<Rightarrow> proc_on_error (clock env) projectPath s1)"

text \<open>
  \<^verbatim>\<open>stopServer\<close>. The test \<^verbatim>\<open>!entry\<close> holds for a read that is falsy. For a value without
  a pid, \<^verbatim>\<open>process.kill(undefined, "SIGTERM")\<close> throws its \<^verbatim>\<open>TypeError\<close> before any signal is
  sent, and the \<^verbatim>\<open>catch\<close> swallows it.
\<close>

definition stopServer :: "stop_env \<Rightarrow> path \<Rightarrow> manager \<Rightarrow> (error + bool) \<times> manager" where
  "stopServer env projectPath s =
     (let entry = ProjectRegistry_get (registry s) projectPath
      in if entry = Undefined then (Inr False, s)
         else
          (let s1 = killAttachProcesses (ps_aux env) (os_kill env) (value_port entry) s;
               s2 = (case processes s1 projectPath of
                       Some proc \<Rightarrow>
                         (let s' = proc_kill env projectPath proc SIGTERM s1
                          in s'\<lparr>processes := (processes s')(projectPath := None)\<rparr>)
                     | None \<Rightarrow>
                         (case value_pid entry of
                            None \<Rightarrow> s1
                          | Some target \<Rightarrow>
                              (case process_kill (os_kill env) target SIGTERM s1 of
                                 (Inl e, s') \<Rightarrow> s'
                               | (Inr u, s') \<Rightarrow> s')));
               s3 = s2\<lparr>registry :=
                        ProjectRegistry_update (clock env) projectPath [SetStatus Stopped] (registry s2)\<rparr>;
               s4 = s3\<lparr>registry := snd (ProjectRegistry_remove projectPath (registry s3))\<rparr>
           in (Inr True, s4)))"

section \<open>Calls of startServer in flight\<close>





section \<open>The event hub\<close>

text \<open>
  A sink is a response object, named by a number. A controller is an
  \<^verbatim>\<open>AbortController\<close>, named by a number too; each call of \<^verbatim>\<open>startEventForwarding\<close> that
  gets past its first test makes one, so the number also names that call. An event holds
  its \<^verbatim>\<open>type\<close> (\<open>None\<close> when it has none) and the text that \<^verbatim>\<open>JSON.stringify\<close> makes of
  its \<^verbatim>\<open>properties\<close>.
\<close>

type_synonym sink = nat

type_synonym controller = nat

record event =
  event_type :: "string option"
  properties :: string

text \<open>
  A call of \<^verbatim>\<open>startEventForwarding\<close> that has not returned is suspended either at
  \<^verbatim>\<open>await client.event.subscribe()\<close> (\<open>Subscribing\<close>) or in the \<^verbatim>\<open>for await\<close> loop,
  waiting for the next event of its stream (\<open>Streaming\<close>).
\<close>

datatype phase = Subscribing | Streaming

text \<open>
  \<open>connections\<close> and \<open>activeStreams\<close> are the two maps of the module; a set of sinks is
  the list of its members in insertion order. \<open>aborted\<close> tells of a controller whether
  its signal is aborted, \<open>forwardings\<close> holds the suspended calls, \<open>retries\<close> the paths
  of the pending \<^verbatim>\<open>setTimeout\<close> callbacks. \<open>written\<close> lists the \<^verbatim>\<open>res.write\<close> calls that
  returned, \<open>failed_writes\<close> those that threw and were logged, with the event name.
\<close>

record hub =
  connections :: "path \<rightharpoonup> sink list"
  activeStreams :: "path \<rightharpoonup> controller"
  aborted :: "controller \<Rightarrow> bool"
  forwardings :: "controller \<rightharpoonup> path \<times> phase"
  next_controller :: controller
  retries :: "path list"
  written :: "(sink \<times> string) list"
  failed_writes :: "(sink \<times> string) list"

definition initial_hub :: hub where
  "initial_hub =
     \<lparr>connections = Map.empty, activeStreams = Map.empty, aborted = (\<lambda>c. False),
      forwardings = Map.empty, next_controller = 0, retries = [], written = [],
      failed_writes = []\<rparr>"

definition set_add :: "'a \<Rightarrow> 'a list \<Rightarrow> 'a list" where
  "set_add x xs = (if x \<in> set xs then xs else xs @ [x])"

definition set_delete :: "'a \<Rightarrow> 'a list \<Rightarrow> 'a list" where
  "set_delete x xs = removeAll x xs"

text \<open>\<^verbatim>\<open>startEventForwarding\<close> from its start to the \<^verbatim>\<open>await\<close> of line 74.\<close>

definition startEventForwarding_begin :: "registry \<Rightarrow> path \<Rightarrow> hub \<Rightarrow> hub" where
  "startEventForwarding_begin reg projectPath h =
     (let entry = ProjectRegistry_get reg projectPath
      in if entry = Undefined \<or> value_status entry \<noteq> Some Running then h
         else (let c = next_controller h
               in h\<lparr>next_controller := c + 1,
                    activeStreams := (activeStreams h)(projectPath \<mapsto> c),
                    forwardings := (forwardings h)(c \<mapsto> (projectPath, Subscribing))\<rparr>))"

text \<open>The \<^verbatim>\<open>finally\<close> block, after which the call is over and its stream closed.\<close>

definition startEventForwarding_finally :: "controller \<Rightarrow> path \<Rightarrow> hub \<Rightarrow> hub" where
  "startEventForwarding_finally c projectPath h =
     h\<lparr>activeStreams := (activeStreams h)(projectPath := None),
       forwardings := (forwardings h)(c := None)\<rparr>"

text \<open>The \<^verbatim>\<open>catch\<close> block (it sets the retry timer), then the \<^verbatim>\<open>finally\<close> block.\<close>

definition startEventForwarding_catch :: "controller \<Rightarrow> path \<Rightarrow> hub \<Rightarrow> hub" where
  "startEventForwarding_catch c projectPath h =
     startEventForwarding_finally c projectPath
       (if \<not> aborted h c then h\<lparr>retries := retries h @ [projectPath]\<rparr> else h)"

text \<open>\<^verbatim>\<open>broadcast\<close>; \<open>write_throws\<close> tells of a sink whether \<^verbatim>\<open>res.write\<close> throws.\<close>

definition sse_message :: "string \<Rightarrow> string \<Rightarrow> string" where
  "sse_message ev data = ''event: '' @ ev @ [CHR 0x0A] @ ''data: '' @ data @ [CHR 0x0A, CHR 0x0A]"

definition write_to :: "(sink \<Rightarrow> bool) \<Rightarrow> string \<Rightarrow> string \<Rightarrow> sink \<Rightarrow> hub \<Rightarrow> hub" where
  "write_to write_throws ev message res h =
     (if write_throws res then h\<lparr>failed_writes := failed_writes h @ [(res, ev)]\<rparr>
      else h\<lparr>written := written h @ [(res, message)]\<rparr>)"

definition broadcast :: "(sink \<Rightarrow> bool) \<Rightarrow> path \<Rightarrow> string \<Rightarrow> string \<Rightarrow> hub \<Rightarrow> hub" where
  "broadcast write_throws projectPath ev data h =
     (case connections h projectPath of
        None \<Rightarrow> h
      | Some projectConnections \<Rightarrow>
          fold (write_to write_throws ev (sse_message ev data)) projectConnections h)"

text \<open>The test of lines 87 to 94.\<close>

definition is_forwarded_type :: "string option \<Rightarrow> bool" where
  "is_forwarded_type eventType \<longleftrightarrow>
     eventType = Some ''message.created'' \<or>
     eventType = Some ''message.updated'' \<or>
     eventType = Some ''message.completed'' \<or>
     eventType = Some ''part.updated'' \<or>
     eventType = Some ''permission.requested'' \<or>
     eventType = Some ''session.updated''"

text \<open>
  One pass through the body of the \<^verbatim>\<open>for await\<close> loop (lines 76 to 102) of the call with
  controller \<open>c\<close>, for an event that its stream has produced. A \<^verbatim>\<open>break\<close> leads to the
  \<^verbatim>\<open>finally\<close> block.
\<close>

definition forward_event :: "(sink \<Rightarrow> bool) \<Rightarrow> controller \<Rightarrow> path \<Rightarrow> event \<Rightarrow> hub \<Rightarrow> hub" where
  "forward_event write_throws c projectPath ev h =
     (if aborted h c then startEventForwarding_finally c projectPath h
      else (let h1 = (case event_type ev of
                        None \<Rightarrow> h
                      | Some eventType \<Rightarrow>
                          if is_forwarded_type (Some eventType)
                          then broadcast write_throws projectPath eventType (properties ev) h
                          else h)
            in if connections h1 projectPath = None
               then startEventForwarding_finally c projectPath h1
               else h1))"

text \<open>\<^verbatim>\<open>addConnection\<close>, and the \<^verbatim>\<open>close\<close> listener that it puts on the sink.\<close>

definition addConnection :: "registry \<Rightarrow> path \<Rightarrow> sink \<Rightarrow> hub \<Rightarrow> hub" where
  "addConnection reg projectPath res h =
     (let h1 = (if connections h projectPath = None
                then h\<lparr>connections := (connections h)(projectPath \<mapsto> [])\<rparr> else h);
          h2 = (case connections h1 projectPath of
                  None \<Rightarrow> h1
                | Some rs \<Rightarrow> h1\<lparr>connections := (connections h1)(projectPath \<mapsto> set_add res rs)\<rparr>)
      in if activeStreams h2 projectPath = None
         then startEventForwarding_begin reg projectPath h2
         else h2)"

definition res_on_close :: "path \<Rightarrow> sink \<Rightarrow> hub \<Rightarrow> hub" where
  "res_on_close projectPath res h =
     (let h1 = (case connections h projectPath of
                  None \<Rightarrow> h
                | Some rs \<Rightarrow> h\<lparr>connections := (connections h)(projectPath \<mapsto> set_delete res rs)\<rparr>)
      in case connections h1 projectPath of
           None \<Rightarrow> h1
         | Some rs \<Rightarrow>
             if length rs = 0 then
               (let h2 = h1\<lparr>connections := (connections h1)(projectPath := None)\<rparr>
                in case activeStreams h2 projectPath of
                     None \<Rightarrow> h2
                   | Some c \<Rightarrow>
                       h2\<lparr>aborted := (aborted h2)(c := True),
                          activeStreams := (activeStreams h2)(projectPath := None)\<rparr>)
             else h1)"

text \<open>The callback of the retry timer (lines 107 to 111), and \<^verbatim>\<open>stopEventForwarding\<close>.\<close>

definition retry_callback :: "registry \<Rightarrow> path \<Rightarrow> hub \<Rightarrow> hub" where
  "retry_callback reg projectPath h =
     (if connections h projectPath \<noteq> None \<and> activeStreams h projectPath = None
      then startEventForwarding_begin reg projectPath h
      else h)"

definition stopEventForwarding :: "path \<Rightarrow> hub \<Rightarrow> hub" where
  "stopEventForwarding projectPath h =
     (case activeStreams h projectPath of
        None \<Rightarrow> h
      | Some c \<Rightarrow>
          h\<lparr>aborted := (aborted h)(c := True),
            activeStreams := (activeStreams h)(projectPath := None)\<rparr>)"

text \<open>
  What can happen to the hub, one step at a time: the two entry points are called, a sink
  closes, a suspended call is resumed by its subscription or by its stream, a retry timer
  fires. A step that names a call which is not suspended where the step needs it, or a
  timer that is not pending, changes nothing.
\<close>

datatype hub_event =
    AddConnection path sink
  | ResClose path sink
  | SubscribeResolved controller
  | SubscribeRejected controller
  | StreamYields controller event "sink \<Rightarrow> bool"
  | StreamEnds controller
  | StreamThrows controller
  | RetryTimer path
  | StopEventForwarding path

fun hub_step :: "registry \<Rightarrow> hub_event \<Rightarrow> hub \<Rightarrow> hub" where
  "hub_step reg (AddConnection p res) h = addConnection reg p res h"
| "hub_step reg (ResClose p res) h = res_on_close p res h"
| "hub_step reg (SubscribeResolved c) h =
     (case forwardings h c of
        Some (p, Subscribing) \<Rightarrow> h\<lparr>forwardings := (forwardings h)(c \<mapsto> (p, Streaming))\<rparr>
      | _ \<Rightarrow> h)"
| "hub_step reg (SubscribeRejected c) h =
     (case forwardings h c of
        Some (p, Subscribing) \<Rightarrow> startEventForwarding_catch c p h
      | _ \<Rightarrow> h)"
| "hub_step reg (StreamYields c ev write_throws) h =
     (case forwardings h c of
        Some (p, Streaming) \<Rightarrow> forward_event write_throws c p ev h
      | _ \<Rightarrow> h)"
| "hub_step reg (StreamEnds c) h =
     (case forwardings h c of
        Some (p, Streaming) \<Rightarrow> startEventForwarding_finally c p h
      | _ \<Rightarrow> h)"
| "hub_step reg (StreamThrows c) h =
     (case forwardings h c of
        Some (p, Streaming) \<Rightarrow> startEventForwarding_catch c p h
      | _ \<Rightarrow> h)"
| "hub_step reg (RetryTimer p) h =
     (if p \<in> set (retries h)
      then retry_callback reg p (h\<lparr>retries := remove1 p (retries h)\<rparr>)
      else h)"
| "hub_step reg (StopEventForwarding p) h = stopEventForwarding p h"

definition hub_run :: "registry \<Rightarrow> hub_event list \<Rightarrow> hub \<Rightarrow> hub" where
  "hub_run reg evs h = fold (hub_step reg) evs h"

text \<open>The sinks that a path has at the moment, and the calls that hold an open upstream
  stream for a path.\<close>

definition current_sinks :: "hub \<Rightarrow> path \<Rightarrow> sink list" where
  "current_sinks h projectPath =
     (case connections h projectPath of None \<Rightarrow> [] | Some rs \<Rightarrow> rs)"

definition open_streams :: "hub \<Rightarrow> path \<Rightarrow> controller list" where
  "open_streams h projectPath =
     filter (\<lambda>c. forwardings h c = Some (projectPath, Streaming)) [0..<next_controller h]"

section \<open>Worked scenarios\<close>

text \<open>
  The inputs at which the properties below are evaluated. All of them are about one
  project, \<^verbatim>\<open>/proj\<close>. \<open>worker_entry\<close> is a registry entry without a terminal,
  \<open>worker_state\<close> a supervisor that tracks the one worker of that entry.
\<close>

definition healthy_response :: fetch_result where
  "healthy_response = Response 200 (Some (JObject [(''healthy'', JBool True)]))"

definition worker_entry :: "int \<Rightarrow> int \<Rightarrow> status \<Rightarrow> int \<Rightarrow> int \<Rightarrow> ProjectEntry" where
  "worker_entry prt pd st started active =
     \<lparr>port = prt, pid = pd, status = st, hasTUI = False, tmuxSession = None,
      tmuxWindow = None, tmuxPane = None, sessionId = None, startedAt = started,
      lastActivity = active\<rparr>"

definition worker_state :: "ProjectEntry \<Rightarrow> int \<Rightarrow> (path \<times> int) list \<Rightarrow> manager" where
  "worker_state e cursor calls =
     \<lparr>registry = [''/proj'' \<mapsto> Entry e], nextPort = cursor, processes = [''/proj'' \<mapsto> pid e],
      spawned = calls, signals = []\<rparr>"


definition starting_state :: manager where
  "starting_state =
     worker_state (worker_entry 4097 501 Starting 1000 1000) 4098 [(''/proj'', 4097)]"

definition one_running :: manager where
  "one_running =
     worker_state (worker_entry 4097 501 Running 1000 1310) 4098 [(''/proj'', 4097)]"

text \<open>The same call with a worker that is not healthy within 15 seconds.\<close>

definition slow_worker_env :: start_env where
  "slow_worker_env =
     \<lparr>probe = (\<lambda>p. NetworkError), t_cleanup = 1000, listen = (\<lambda>p. Listening),
      spawn_pid = Some 501, t_add = 1000, t_start = 1000,
      polls = [(1000, NetworkError), (8500, NetworkError), (16000, NetworkError)],
      t_done = 16000\<rparr>"

definition timed_out_state :: manager where
  "timed_out_state =
     worker_state (worker_entry 4097 501 Error 1000 16000) 4098 [(''/proj'', 4097)]"

text \<open>A later call: the worker on port 4097 answers its health path by now, and port 4097
  is taken by it. The call spawns a second worker, pid 502, on port 4098.\<close>

definition late_env :: start_env where
  "late_env =
     \<lparr>probe = (\<lambda>p. healthy_response), t_cleanup = 20000,
      listen = (\<lambda>p. if p = 4097 then ListenError ''EADDRINUSE'' else Listening),
      spawn_pid = Some 502, t_add = 20000, t_start = 20000,
      polls = [(20000, healthy_response)], t_done = 20300\<rparr>"

definition restarting_state :: manager where
  "restarting_state =
     worker_state (worker_entry 4098 502 Starting 20000 20000) 4099
       [(''/proj'', 4097), (''/proj'', 4098)]"

definition second_worker_state :: manager where
  "second_worker_state =
     worker_state (worker_entry 4098 502 Running 20000 20300) 4099
       [(''/proj'', 4097), (''/proj'', 4098)]"

text \<open>A call whose \<^verbatim>\<open>spawn\<close> cannot start the process (the command is not found): the
  handle has no pid.\<close>

definition no_binary_env :: start_env where
  "no_binary_env =
     \<lparr>probe = (\<lambda>p. NetworkError), t_cleanup = 1000, listen = (\<lambda>p. Listening),
      spawn_pid = None, t_add = 1000, t_start = 1000, polls = [], t_done = 1000\<rparr>"

definition after_failed_spawn :: manager where
  "after_failed_spawn =
     \<lparr>registry = Map.empty, nextPort = 4098, processes = Map.empty,
      spawned = [(''/proj'', 4097)], signals = []\<rparr>"


definition two_spawned :: "status \<Rightarrow> int \<Rightarrow> manager" where
  "two_spawned st active =
     worker_state (worker_entry 4098 502 st 1005 active) 4099
       [(''/proj'', 4097), (''/proj'', 4098)]"

text \<open>A \<^verbatim>\<open>stopServer\<close> call for which every signal fails: \<^verbatim>\<open>process.kill\<close> throws and
  the handle's \<^verbatim>\<open>kill\<close> emits \<^verbatim>\<open>error\<close>.\<close>

definition failing_stop_env :: stop_env where
  "failing_stop_env =
     \<lparr>ps_aux = Inr ''dev 77 opencode attach http://localhost:4098'',
      os_kill = (\<lambda>target. False), handle_kill = (\<lambda>proc. ErrorEvent), clock = 30000\<rparr>"

text \<open>The hub: a registry in which the project is running, sinks whose writes succeed or
  fail, two events, and four traces.\<close>

definition served_registry :: registry where
  "served_registry = [''/proj'' \<mapsto> Entry (worker_entry 4097 501 Running 1000 1310)]"

definition never_throws :: "sink \<Rightarrow> bool" where
  "never_throws res = False"

definition first_sink_throws :: "sink \<Rightarrow> bool" where
  "first_sink_throws res = (res = 1)"

definition message_created :: event where
  "message_created = \<lparr>event_type = Some ''message.created'', properties = ''{}''\<rparr>"

definition server_connected :: event where
  "server_connected = \<lparr>event_type = Some ''server.connected'', properties = ''{}''\<rparr>"

definition two_sinks_trace :: "hub_event list" where
  "two_sinks_trace = [AddConnection ''/proj'' 1, AddConnection ''/proj'' 2, SubscribeResolved 0]"

definition disconnect_trace :: "hub_event list" where
  "disconnect_trace = [AddConnection ''/proj'' 1, SubscribeResolved 0, ResClose ''/proj'' 1]"

definition reconnect_trace :: "hub_event list" where
  "reconnect_trace = disconnect_trace @ [AddConnection ''/proj'' 2, SubscribeResolved 1]"

definition duplicate_trace :: "hub_event list" where
  "duplicate_trace =
     reconnect_trace @
     [StreamYields 0 message_created never_throws, AddConnection ''/proj'' 3,
      SubscribeResolved 2]"

section \<open>Properties\<close>

lemma checkHealth_reports: "checkHealth r = Inr (reports_healthy r)"
proof (cases r)
  case NetworkError
  then show ?thesis by (simp add: checkHealth_def)
next
  case (Response st body)
  show ?thesis
  proof (cases body)
    case None
    with Response show ?thesis by (simp add: checkHealth_def)
  next
    case (Some data)
    with Response show ?thesis by (cases data) (simp_all add: checkHealth_def)
  qed
qed

lemma reports_healthy_iff:
  "reports_healthy r \<longleftrightarrow>
     (\<exists>st props. r = Response st (Some (JObject props)) \<and> response_ok st \<and>
        map_of props ''healthy'' = Some (JBool True))"
  by (induction r rule: reports_healthy.induct) simp_all

text \<open>
  Claim C6. The health probe reports healthy exactly when the response is successful (a
  status from 200 to 299) and its body is an object whose field \<open>healthy\<close> is the
  boolean \<open>true\<close>; every other response, every other body and every transport failure
  is reported unhealthy, and the probe always returns a boolean, never an error.
\<close>

theorem health_probe_contract:
  "(checkHealth r = Inr True \<longleftrightarrow>
      (\<exists>st props. r = Response st (Some (JObject props)) \<and> 200 \<le> st \<and> st \<le> 299 \<and>
         map_of props ''healthy'' = Some (JBool True)))
   \<and> (checkHealth r = Inr True \<or> checkHealth r = Inr False)"
proof (intro conjI)
  show "checkHealth r = Inr True \<longleftrightarrow>
      (\<exists>st props. r = Response st (Some (JObject props)) \<and> 200 \<le> st \<and> st \<le> 299 \<and>
         map_of props ''healthy'' = Some (JBool True))"
    unfolding checkHealth_reports using reports_healthy_iff [of r]
    by (simp add: response_ok_def)
  show "checkHealth r = Inr True \<or> checkHealth r = Inr False"
    unfolding checkHealth_reports by simp
qed

lemma loop_Some_iff:
  "findAvailablePort_loop net c m = Some p \<longleftrightarrow>
     c \<le> p \<and> p \<le> m \<and> isPortAvailable net p \<and> (\<forall>q. c \<le> q \<and> q < p \<longrightarrow> \<not> isPortAvailable net q)"
proof (induction net c m rule: findAvailablePort_loop.induct)
  case (1 net c m)
  show ?case
  proof (cases "c \<le> m")
    case False
    then show ?thesis by (subst findAvailablePort_loop.simps) auto
  next
    case le: True
    show ?thesis
    proof (cases "isPortAvailable net c")
      case True
      with le show ?thesis
        by (subst findAvailablePort_loop.simps) (auto simp: not_less)
    next
      case False
      have step: "findAvailablePort_loop net c m = findAvailablePort_loop net (c + 1) m"
        using le False by (subst findAvailablePort_loop.simps) simp
      have ih: "findAvailablePort_loop net (c + 1) m = Some p \<longleftrightarrow>
          c + 1 \<le> p \<and> p \<le> m \<and> isPortAvailable net p \<and>
          (\<forall>q. c + 1 \<le> q \<and> q < p \<longrightarrow> \<not> isPortAvailable net q)"
        using 1 le False by simp
      have "(c \<le> p \<and> p \<le> m \<and> isPortAvailable net p \<and>
             (\<forall>q. c \<le> q \<and> q < p \<longrightarrow> \<not> isPortAvailable net q)) \<longleftrightarrow>
            (c + 1 \<le> p \<and> p \<le> m \<and> isPortAvailable net p \<and>
             (\<forall>q. c + 1 \<le> q \<and> q < p \<longrightarrow> \<not> isPortAvailable net q))"
        (is "?L \<longleftrightarrow> ?R")
      proof
        assume l: ?L
        then have "c \<noteq> p" using False by auto
        with l show ?R by auto
      next
        assume r: ?R
        show ?L
        proof (intro conjI allI impI)
          show "c \<le> p" using r by linarith
          show "p \<le> m" using r by simp
          show "isPortAvailable net p" using r by simp
          fix q assume q: "c \<le> q \<and> q < p"
          show "\<not> isPortAvailable net q"
          proof (cases "q = c")
            case True
            with False show ?thesis by simp
          next
            case False
            with q have "c + 1 \<le> q \<and> q < p" by linarith
            with r show ?thesis by blast
          qed
        qed
      qed
      with ih step show ?thesis by simp
    qed
  qed
qed

lemma loop_None_iff:
  "findAvailablePort_loop net c m = None \<longleftrightarrow> (\<forall>q. c \<le> q \<and> q \<le> m \<longrightarrow> \<not> isPortAvailable net q)"
proof -
  have "findAvailablePort_loop net c m = None \<longleftrightarrow> (\<forall>p. findAvailablePort_loop net c m \<noteq> Some p)"
    by auto
  also have "\<dots> \<longleftrightarrow> (\<forall>q. c \<le> q \<and> q \<le> m \<longrightarrow> \<not> isPortAvailable net q)"
  proof
    assume none: "\<forall>p. findAvailablePort_loop net c m \<noteq> Some p"
    show "\<forall>q. c \<le> q \<and> q \<le> m \<longrightarrow> \<not> isPortAvailable net q"
    proof (intro allI impI)
      fix q assume q: "c \<le> q \<and> q \<le> m"
      show "\<not> isPortAvailable net q"
      proof
        assume av: "isPortAvailable net q"
        define P where "P = (\<lambda>k. isPortAvailable net (c + int k))"
        have "P (nat (q - c))" using q av by (simp add: P_def)
        then have ex: "\<exists>k. P k" ..
        define k where "k = (LEAST k. P k)"
        have Pk: "P k" unfolding k_def using ex by (rule LeastI_ex)
        have least: "\<And>j. P j \<Longrightarrow> k \<le> j" unfolding k_def by (rule Least_le)
        have kq: "k \<le> nat (q - c)" using least \<open>P (nat (q - c))\<close> by blast
        have "findAvailablePort_loop net c m = Some (c + int k)"
        proof (subst loop_Some_iff, intro conjI allI impI)
          show "c \<le> c + int k" by simp
          show "c + int k \<le> m" using kq q by linarith
          show "isPortAvailable net (c + int k)" using Pk by (simp add: P_def)
          fix r assume r: "c \<le> r \<and> r < c + int k"
          show "\<not> isPortAvailable net r"
          proof
            assume "isPortAvailable net r"
            then have "P (nat (r - c))" using r by (simp add: P_def)
            then have "k \<le> nat (r - c)" by (rule least)
            with r show False by linarith
          qed
        qed
        with none show False by simp
      qed
    qed
  next
    assume "\<forall>q. c \<le> q \<and> q \<le> m \<longrightarrow> \<not> isPortAvailable net q"
    then show "\<forall>p. findAvailablePort_loop net c m \<noteq> Some p"
      by (auto simp: loop_Some_iff)
  qed
  finally show ?thesis .
qed

lemma isPortAvailable_iff: "isPortAvailable net p \<longleftrightarrow> net p = Listening"
  by (simp add: isPortAvailable_def split: listen_result.splits)


lemma findAvailablePort_Inr_iff:
  "findAvailablePort net c m = Inr p \<longleftrightarrow>
     c \<le> p \<and> p \<le> m \<and> net p = Listening \<and> (\<forall>q. c \<le> q \<and> q < p \<longrightarrow> net q \<noteq> Listening)"
proof (cases "findAvailablePort_loop net c m")
  case None
  then show ?thesis
    using loop_None_iff [of net c m]
    by (auto simp: findAvailablePort_def isPortAvailable_iff)
next
  case (Some x)
  then show ?thesis
    using loop_Some_iff [of net c m p]
    by (auto simp: findAvailablePort_def isPortAvailable_iff)
qed

lemma findAvailablePort_Inl_iff:
  "findAvailablePort net c m = Inl e \<longleftrightarrow>
     e = PortExhausted c m \<and> (\<forall>q. c \<le> q \<and> q \<le> m \<longrightarrow> net q \<noteq> Listening)"
  using loop_None_iff [of net c m]
  by (auto simp: findAvailablePort_def isPortAvailable_iff split: option.splits)

lemma fst_allocatePort: "fst (allocatePort net s) = findAvailablePort net (nextPort s) 4196"
  by (simp add: allocatePort_def split: sum.splits)

text \<open>
  Claim C5. Port allocation returns the first port, counting up from the cursor, on which a
  listener can be bound, and moves the cursor one past it; with the cursor at or above the
  base 4097 and no port from 4097 to 4196 free it fails with \<open>PortExhausted\<close> and leaves
  the state alone; with the cursor at 4097, that port taken and 4098 free, it returns 4098.
\<close>

theorem allocate_first_free_port:
  "(fst (allocatePort net s) = Inr p \<longleftrightarrow>
      nextPort s \<le> p \<and> p \<le> 4196 \<and> net p = Listening \<and>
      (\<forall>q. nextPort s \<le> q \<and> q < p \<longrightarrow> net q \<noteq> Listening))
   \<and> (fst (allocatePort net s) = Inr p \<longrightarrow> snd (allocatePort net s) = s\<lparr>nextPort := p + 1\<rparr>)
   \<and> (4097 \<le> nextPort s \<and> (\<forall>q. 4097 \<le> q \<and> q \<le> 4196 \<longrightarrow> net q \<noteq> Listening) \<longrightarrow>
        allocatePort net s = (Inl (PortExhausted (nextPort s) 4196), s))
   \<and> (nextPort s = 4097 \<and> net 4097 \<noteq> Listening \<and> net 4098 = Listening \<longrightarrow>
        allocatePort net s = (Inr 4098, s\<lparr>nextPort := 4099\<rparr>))"
proof (intro conjI impI)
  show "fst (allocatePort net s) = Inr p \<longleftrightarrow>
      nextPort s \<le> p \<and> p \<le> 4196 \<and> net p = Listening \<and>
      (\<forall>q. nextPort s \<le> q \<and> q < p \<longrightarrow> net q \<noteq> Listening)"
    using findAvailablePort_Inr_iff [of net "nextPort s" 4196 p]
    by (simp add: fst_allocatePort)
next
  assume "fst (allocatePort net s) = Inr p"
  then show "snd (allocatePort net s) = s\<lparr>nextPort := p + 1\<rparr>"
    by (simp add: allocatePort_def split: sum.splits)
next
  assume h: "4097 \<le> nextPort s \<and> (\<forall>q. 4097 \<le> q \<and> q \<le> 4196 \<longrightarrow> net q \<noteq> Listening)"
  then have "\<forall>q. nextPort s \<le> q \<and> q \<le> 4196 \<longrightarrow> net q \<noteq> Listening"
    by (meson order_trans)
  then have "findAvailablePort net (nextPort s) 4196 = Inl (PortExhausted (nextPort s) 4196)"
    by (simp add: findAvailablePort_Inl_iff)
  then show "allocatePort net s = (Inl (PortExhausted (nextPort s) 4196), s)"
    by (simp add: allocatePort_def)
next
  assume h: "nextPort s = 4097 \<and> net 4097 \<noteq> Listening \<and> net 4098 = Listening"
  have "\<And>q::int. 4097 \<le> q \<and> q < 4098 \<Longrightarrow> q = 4097" by arith
  with h have "\<forall>q. 4097 \<le> q \<and> q < 4098 \<longrightarrow> net q \<noteq> Listening" by metis
  with h have "findAvailablePort net (nextPort s) 4196 = Inr 4098"
    by (simp add: findAvailablePort_Inr_iff)
  then show "allocatePort net s = (Inr 4098, s\<lparr>nextPort := 4099\<rparr>)"
    by (simp add: allocatePort_def)
qed

theorem allocate_first_free_port_witness:
  "allocatePort (\<lambda>p. if p = 4097 then ListenError ''EADDRINUSE'' else Listening) initial_manager
     = (Inr 4098, initial_manager\<lparr>nextPort := 4099\<rparr>)
   \<and> allocatePort (\<lambda>p. ListenError ''EADDRINUSE'') initial_manager
     = (Inl (PortExhausted 4097 4196), initial_manager)"
  using allocate_first_free_port
          [of "\<lambda>p. if p = 4097 then ListenError ''EADDRINUSE'' else Listening" initial_manager 4098]
        allocate_first_free_port [of "\<lambda>p. ListenError ''EADDRINUSE''" initial_manager 0]
  by (simp add: initial_manager_def)

lemma split_lines_nonempty: "split_lines s \<noteq> []"
  by (induction s) (auto split: list.splits)

lemma split_lines_append:
  "split_lines (a @ CHR 0x0A # b) = split_lines a @ split_lines b"
proof (induction a)
  case Nil
  show ?case by simp
next
  case (Cons c a)
  show ?case
  proof (cases "c = CHR 0x0A")
    case True
    with Cons show ?thesis by simp
  next
    case False
    obtain l ls where ls: "split_lines a = l # ls"
      using split_lines_nonempty [of a] by (cases "split_lines a") auto
    with Cons False show ?thesis by simp
  qed
qed

lemma split_lines_single: "CHR 0x0A \<notin> set l \<Longrightarrow> split_lines l = [l]"
  by (induction l) auto

lemma scan_line_range: "scan_line l = Some p \<Longrightarrow> 4000 \<le> p \<and> p \<le> 5000"
  by (auto simp: scan_line_def split: option.splits if_splits)

lemma scan_range: "p \<in> set (scanExistingOpenCodePorts ps) \<Longrightarrow> 4000 \<le> p \<and> p \<le> 5000"
  by (cases ps) (auto simp: scanExistingOpenCodePorts_def List.map_filter_def dest: scan_line_range)

text \<open>
  Claim C10. The scan of the process table reports only ports from 4000 to 5000, in
  ascending order, and gives the empty list when the table cannot be read. A line whose
  \<^verbatim>\<open>--port\<close> argument lies outside that range changes neither the scan's result nor
  the port cursor that recovery sets from it.
\<close>

theorem scan_reports_only_range:
  "(\<forall>p \<in> set (scanExistingOpenCodePorts ps). 4000 \<le> p \<and> p \<le> 5000)
   \<and> sorted (scanExistingOpenCodePorts ps)
   \<and> scanExistingOpenCodePorts (Inl e) = []
   \<and> (port_argument line = Some n \<and> (n < 4000 \<or> 5000 < n) \<and> CHR 0x0A \<notin> set line \<longrightarrow>
        scanExistingOpenCodePorts (Inr (before @ CHR 0x0A # line @ CHR 0x0A # after))
          = scanExistingOpenCodePorts (Inr (before @ CHR 0x0A # after))
        \<and> initializePortAllocation (Inr (before @ CHR 0x0A # line @ CHR 0x0A # after)) s
          = initializePortAllocation (Inr (before @ CHR 0x0A # after)) s)"
proof (intro conjI impI ballI)
  fix p assume "p \<in> set (scanExistingOpenCodePorts ps)"
  then show "4000 \<le> p" "p \<le> 5000" using scan_range by blast+
next
  show "sorted (scanExistingOpenCodePorts ps)"
    by (cases ps) (simp_all add: scanExistingOpenCodePorts_def)
next
  show "scanExistingOpenCodePorts (Inl e) = []"
    by (simp add: scanExistingOpenCodePorts_def)
next
  assume h: "port_argument line = Some n \<and> (n < 4000 \<or> 5000 < n) \<and> CHR 0x0A \<notin> set line"
  then have none: "scan_line line = None"
    by (auto simp: scan_line_def)
  have single: "split_lines line = [line]"
    using h by (simp add: split_lines_single)
  show eq: "scanExistingOpenCodePorts (Inr (before @ CHR 0x0A # line @ CHR 0x0A # after))
          = scanExistingOpenCodePorts (Inr (before @ CHR 0x0A # after))"
    using none by (simp add: scanExistingOpenCodePorts_def single split_lines_append List.map_filter_def)
  show "initializePortAllocation (Inr (before @ CHR 0x0A # line @ CHR 0x0A # after)) s
          = initializePortAllocation (Inr (before @ CHR 0x0A # after)) s"
    by (simp only: initializePortAllocation_def eq)
qed

theorem scan_reports_only_range_witness:
  "port_argument ''dev 812 opencode serve --port 6000'' = Some 6000
   \<and> scanExistingOpenCodePorts
        (Inr (''USER PID COMMAND'' @ CHR 0x0A # ''dev 812 opencode serve --port 6000'' @
              CHR 0x0A # ''dev 900 opencode serve --port 4100'')) = [4100]
   \<and> nextPort (initializePortAllocation
        (Inr (''USER PID COMMAND'' @ CHR 0x0A # ''dev 812 opencode serve --port 6000'' @
              CHR 0x0A # ''dev 900 opencode serve --port 4100'')) initial_manager) = 4101"
proof -
  have a: "port_argument ''dev 812 opencode serve --port 6000'' = Some 6000"
    by code_simp
  have b: "CHR 0x0A \<notin> set ''dev 812 opencode serve --port 6000''"
    by code_simp
  have c: "scanExistingOpenCodePorts
        (Inr (''USER PID COMMAND'' @ CHR 0x0A # ''dev 900 opencode serve --port 4100'')) = [4100]"
    by code_simp
  have d: "nextPort (initializePortAllocation
        (Inr (''USER PID COMMAND'' @ CHR 0x0A # ''dev 900 opencode serve --port 4100''))
        initial_manager) = 4101"
    by code_simp
  from scan_reports_only_range
         [where ps = "Inr (''USER PID COMMAND'' @ CHR 0x0A # ''dev 812 opencode serve --port 6000'' @
                            CHR 0x0A # ''dev 900 opencode serve --port 4100'')"
            and line = "''dev 812 opencode serve --port 6000''" and n = 6000
            and before = "''USER PID COMMAND''"
            and after = "''dev 900 opencode serve --port 4100''" and s = initial_manager]
       a b c d
  show ?thesis by simp
qed

subsection \<open>Reads of the store\<close>

lemma own_field_entry:
  "own_field (Entry e) ''port'' = Some (SetPort (port e))"
  "own_field (Entry e) ''pid'' = Some (SetPid (pid e))"
  "own_field (Entry e) ''status'' = Some (SetStatus (status e))"
  by (simp_all add: own_field_def entry_fields_def)

lemma value_of_entry [simp]:
  "value_port (Stored (Entry e)) = Some (port e)"
  "value_pid (Stored (Entry e)) = Some (pid e)"
  "value_status (Stored (Entry e)) = Some (status e)"
  by (simp_all add: value_port_def value_pid_def value_status_def own_field_entry)

lemma value_of_no_object [simp]:
  "value_port Undefined = None" "value_port Truthy = None"
  "value_pid Undefined = None" "value_pid Truthy = None"
  "value_status Undefined = None" "value_status Truthy = None"
  by (simp_all add: value_port_def value_pid_def value_status_def)

text \<open>A read gives an object of the store exactly when the store holds that object under
  the key; what is inherited is never such an object.\<close>

lemma get_Stored_iff: "ProjectRegistry_get reg p = Stored obj \<longleftrightarrow> reg p = Some obj"
  by (auto simp: ProjectRegistry_get_def inherited_def split: option.splits)

lemma get_assigned [simp]: "ProjectRegistry_get (reg(p \<mapsto> obj)) p = Stored obj"
  by (simp add: ProjectRegistry_get_def)

lemma get_without_object:
  "reg p = None \<Longrightarrow> ProjectRegistry_get reg p = Undefined \<or> ProjectRegistry_get reg p = Truthy"
  by (auto simp: ProjectRegistry_get_def inherited_def split: option.splits)

lemma status_without_object: "reg p = None \<Longrightarrow> value_status (ProjectRegistry_get reg p) = None"
  using get_without_object [of reg p] by auto

text \<open>A key that is no name of \<^verbatim>\<open>Object.prototype\<close>, in a store whose prototype was never
  set, is read as the map has it.\<close>

lemma get_ordinary_path:
  "reg ''__proto__'' = None \<Longrightarrow> p \<noteq> ''__proto__'' \<Longrightarrow> p \<notin> set prototype_functions \<Longrightarrow>
   ProjectRegistry_get reg p = (case reg p of None \<Rightarrow> Undefined | Some obj \<Rightarrow> Stored obj)"
  by (simp add: ProjectRegistry_get_def inherited_def split: option.splits)

lemma update_entry:
  "reg p = Some (Entry e) \<Longrightarrow>
   ProjectRegistry_update now p ups reg
     = reg(p \<mapsto> Entry ((fold apply_update ups e)\<lparr>lastActivity := now\<rparr>))"
  using get_Stored_iff [of reg p "Entry e"] by (simp add: ProjectRegistry_update_def)

lemma update_unread:
  "ProjectRegistry_get reg p = Undefined \<Longrightarrow> ProjectRegistry_update now p ups reg = reg"
  by (simp add: ProjectRegistry_update_def)

lemma update_assigns:
  "ProjectRegistry_get reg p \<noteq> Undefined \<Longrightarrow>
   \<exists>obj. ProjectRegistry_update now p ups reg = reg(p \<mapsto> obj)"
  by (auto simp: ProjectRegistry_update_def split: jsvalue.splits entry_object.splits)

subsection \<open>The supervisor, one segment at a time\<close>

lemmas registry_ops =
  ProjectRegistry_get_def ProjectRegistry_add_def ProjectRegistry_update_def
  ProjectRegistry_remove_def inherited_def prototype_functions_def

lemmas scenario_states =
  worker_entry_def worker_state_def initial_manager_def starting_state_def one_running_def
  timed_out_state_def restarting_state_def second_worker_state_def after_failed_spawn_def
  two_spawned_def

lemma healthy_response_reports [simp]: "reports_healthy healthy_response"
  by (simp add: healthy_response_def response_ok_def)

lemma isServerHealthy_reports: "isServerHealthy r = Inr (reports_healthy r)"
  by (simp add: isServerHealthy_def checkHealth_reports)

lemma findAvailablePort_loop_here:
  "p \<le> m \<Longrightarrow> net p = Listening \<Longrightarrow> findAvailablePort_loop net p m = Some p"
  by (subst findAvailablePort_loop.simps) (simp add: isPortAvailable_iff)

lemma allocatePort_here:
  "nextPort s \<le> 4196 \<Longrightarrow> net (nextPort s) = Listening \<Longrightarrow>
   allocatePort net s = (Inr (nextPort s), s\<lparr>nextPort := nextPort s + 1\<rparr>)"
  by (simp add: allocatePort_def findAvailablePort_def findAvailablePort_loop_here)

lemma lookup_not_running:
  "value_status (ProjectRegistry_get (registry s) p) \<noteq> Some Running \<Longrightarrow>
   startServer_lookup env p s = (Inr None, s)"
  by (simp add: startServer_lookup_def Let_def)

lemma lookup_absent:
  "registry s p = None \<Longrightarrow> startServer_lookup env p s = (Inr None, s)"
  by (simp add: lookup_not_running status_without_object)




lemma spawn_at_cursor:
  "nextPort s \<le> 4196 \<Longrightarrow> listen env (nextPort s) = Listening \<Longrightarrow>
   spawn_pid env = Some pd \<Longrightarrow> pd \<noteq> 0 \<Longrightarrow>
   startServer_spawn env p s =
     (Inr (nextPort s, True),
      s\<lparr>nextPort := nextPort s + 1,
        spawned := spawned s @ [(p, nextPort s)],
        processes := (processes s)(p \<mapsto> pd),
        registry := (registry s)
          (p \<mapsto> Entry (worker_entry (nextPort s) pd Starting (t_add env) (t_add env)))\<rparr>)"
  by (simp add: startServer_spawn_def allocatePort_here registry_ops worker_entry_def Let_def)

lemma spawn_without_handle_pid:
  "nextPort s \<le> 4196 \<Longrightarrow> listen env (nextPort s) = Listening \<Longrightarrow> spawn_pid env = None \<Longrightarrow>
   startServer_spawn env p s =
     (Inr (nextPort s, False),
      s\<lparr>nextPort := nextPort s + 1, spawned := spawned s @ [(p, nextPort s)]\<rparr>)"
  by (simp add: startServer_spawn_def allocatePort_here Let_def)

lemma spawn_with_pid_entry:
  "startServer_spawn env p s = (Inr (prt, True), s2) \<Longrightarrow>
   (\<exists>e. registry s2 p = Some (Entry e) \<and> status e = Starting \<and> port e = prt) \<and>
   spawned s2 = spawned s @ [(p, prt)]"
  by (auto simp: startServer_spawn_def allocatePort_def registry_ops Let_def
      split: sum.splits option.splits if_splits)


lemma spawn_error:
  "startServer_spawn env p s = (Inl e, s2) \<Longrightarrow> e = PortExhausted (nextPort s) 4196"
  by (auto simp: startServer_spawn_def allocatePort_def findAvailablePort_def Let_def
      split: sum.splits option.splits if_splits)

lemma waitForServer_loop_error:
  "waitForServer_loop prt timeoutMs start rounds = Some (Inl err) \<Longrightarrow>
   err = HealthTimeout prt timeoutMs"
  by (induction rounds) (auto simp: isServerHealthy_reports split: if_splits)

lemma wait_healthy:
  "waitForServer prt (t_start env) (polls env) = Some (Inr ()) \<Longrightarrow>
   startServer_wait env p prt s =
     Some (Inr prt,
           s\<lparr>registry := ProjectRegistry_update (t_done env) p [SetStatus Running] (registry s)\<rparr>)"
  by (simp add: startServer_wait_def)

lemma wait_timeout:
  "waitForServer prt (t_start env) (polls env) = Some (Inl err) \<Longrightarrow>
   startServer_wait env p prt s =
     Some (Inl err,
           s\<lparr>registry := ProjectRegistry_update (t_done env) p [SetStatus Error] (registry s)\<rparr>)"
  by (simp add: startServer_wait_def)

lemma wait_outcome:
  "startServer_wait env p prt s2 = Some (r, s3) \<Longrightarrow> registry s2 p = Some (Entry e) \<Longrightarrow>
   spawned s3 = spawned s2 \<and>
   (case r of
      Inr q \<Rightarrow> q = prt \<and>
        registry s3 p = Some (Entry (e\<lparr>status := Running, lastActivity := t_done env\<rparr>))
    | Inl err \<Rightarrow> err = HealthTimeout prt 15000 \<and>
        registry s3 p = Some (Entry (e\<lparr>status := Error, lastActivity := t_done env\<rparr>)))"
  by (auto simp: startServer_wait_def waitForServer_def update_entry
      dest: waitForServer_loop_error split: option.splits sum.splits)

subsection \<open>The scenarios, run\<close>

lemma initial_lookup:
  "startServer_lookup env p initial_manager = (Inr None, initial_manager)"
  by (simp add: lookup_absent initial_manager_def)




lemma slow_worker_spawn:
  "startServer_spawn slow_worker_env ''/proj'' initial_manager = (Inr (4097, True), starting_state)"
  using spawn_at_cursor [of initial_manager slow_worker_env 501 "''/proj''"]
  by (simp add: slow_worker_env_def scenario_states)

lemma slow_worker_poll:
  "waitForServer 4097 (t_start slow_worker_env) (polls slow_worker_env)
     = Some (Inl (HealthTimeout 4097 15000))"
  by (simp add: waitForServer_def slow_worker_env_def isServerHealthy_reports)

lemma slow_worker_wait:
  "startServer_wait slow_worker_env ''/proj'' 4097 starting_state
     = Some (Inl (HealthTimeout 4097 15000), timed_out_state)"
  by (simp add: wait_timeout [OF slow_worker_poll])
     (simp add: registry_ops slow_worker_env_def scenario_states)

lemma timed_out_state_reached:
  "startServer slow_worker_env ''/proj'' initial_manager
     = Some (Inl (HealthTimeout 4097 15000), timed_out_state)"
  by (simp add: startServer_def initial_lookup slow_worker_spawn slow_worker_wait)

lemma late_lookup:
  "startServer_lookup late_env ''/proj'' timed_out_state = (Inr None, timed_out_state)"
  using lookup_not_running [of timed_out_state "''/proj''" late_env]
  by (simp add: ProjectRegistry_get_def scenario_states)

lemma late_spawn:
  "startServer_spawn late_env ''/proj'' timed_out_state = (Inr (4098, True), restarting_state)"
  using spawn_at_cursor [of timed_out_state late_env 502 "''/proj''"]
  by (simp add: late_env_def scenario_states)

lemma late_poll:
  "waitForServer 4098 (t_start late_env) (polls late_env) = Some (Inr ())"
  by (simp add: waitForServer_def late_env_def isServerHealthy_reports)

lemma late_wait:
  "startServer_wait late_env ''/proj'' 4098 restarting_state = Some (Inr 4098, second_worker_state)"
  by (simp add: wait_healthy [OF late_poll])
     (simp add: registry_ops late_env_def scenario_states)

lemma no_binary_spawn:
  "startServer_spawn no_binary_env ''/proj'' initial_manager
     = (Inr (4097, False), after_failed_spawn)"
  using spawn_without_handle_pid [of initial_manager no_binary_env "''/proj''"]
  by (simp add: no_binary_env_def scenario_states)






subsection \<open>Claim C1: a second call against a live worker\<close>

text \<open>
  Claim C1, as amended. For every project path that has a registry entry with status
  \<open>running\<close> whose worker passes the health probe, \<^verbatim>\<open>startServer\<close> returns the entry's port
  and leaves the supervisor as it was: nothing is spawned and no port is allocated.
\<close>

theorem ensure_running_entry_idempotent:
  "ProjectRegistry_get (registry s) p = Stored (Entry e) \<and> status e = Running \<and>
   checkHealth (probe env (port e)) = Inr True
   \<longrightarrow> startServer env p s = Some (Inr (port e), s)"
  by (simp add: startServer_def startServer_lookup_def isServerHealthy_def Let_def)

theorem ensure_running_entry_idempotent_witness:
  "ProjectRegistry_get (registry one_running) ''/proj'' \<noteq> Undefined
   \<and> checkHealth (probe late_env 4097) = Inr True
   \<and> startServer late_env ''/proj'' one_running = Some (Inr 4097, one_running)"
  using ensure_running_entry_idempotent
          [of one_running "''/proj''" "worker_entry 4097 501 Running 1000 1310" late_env]
  by (simp add: ProjectRegistry_get_def scenario_states late_env_def checkHealth_reports)

text \<open>
  The claim as it stands asks the same of every entry with a live worker. It fails for an
  entry whose status is \<open>error\<close>: the first call timed out on a slow worker, the worker
  answers by now, and the next call does not probe it but spawns a second worker on a new
  port.
\<close>

theorem ensure_any_entry_counterexample:
  "ProjectRegistry_get (registry timed_out_state) ''/proj''
     = Stored (Entry (worker_entry 4097 501 Error 1000 16000))
   \<and> checkHealth (probe late_env 4097) = Inr True
   \<and> startServer late_env ''/proj'' timed_out_state = Some (Inr 4098, second_worker_state)
   \<and> spawned timed_out_state = [(''/proj'', 4097)]
   \<and> spawned second_worker_state = [(''/proj'', 4097), (''/proj'', 4098)]
   \<and> nextPort timed_out_state = 4098
   \<and> nextPort second_worker_state = 4099"
  by (simp add: startServer_def late_lookup late_spawn late_wait)
     (simp add: ProjectRegistry_get_def scenario_states late_env_def checkHealth_reports)

subsection \<open>Claim C2: failures of a call\<close>

text \<open>
  The half of the claim that holds: a call that is rejected with the time-out of the health
  poll leaves an entry with status \<open>error\<close> in the registry.
\<close>

lemma ensure_health_timeout:
  assumes "startServer env p s = Some (Inl (HealthTimeout prt t), s')"
  shows "\<exists>e. registry s' p = Some (Entry e) \<and> status e = Error"
proof -
  obtain r0 s1 where l: "startServer_lookup env p s = (r0, s1)"
    by (cases "startServer_lookup env p s")
  have r0: "r0 = Inr None"
  proof (cases r0)
    case (Inl e)
    with l have False
      by (auto simp: startServer_lookup_def Let_def isServerHealthy_reports
          split: option.splits if_splits)
    then show ?thesis ..
  next
    case (Inr opt)
    with l assms show ?thesis by (cases opt) (auto simp: startServer_def)
  qed
  obtain r1 s2 where sp: "startServer_spawn env p s1 = (r1, s2)"
    by (cases "startServer_spawn env p s1")
  show ?thesis
  proof (cases r1)
    case (Inl e)
    with sp have "e = PortExhausted (nextPort s1) 4196"
      using spawn_error by blast
    with Inl sp l r0 assms show ?thesis by (simp add: startServer_def)
  next
    case (Inr pr)
    obtain q has_pid where pr: "pr = (q, has_pid)" by (cases pr)
    show ?thesis
    proof (cases has_pid)
      case False
      with Inr pr sp l r0 assms show ?thesis by (simp add: startServer_def)
    next
      case True
      with Inr pr sp have "\<exists>e. registry s2 p = Some (Entry e)"
        using spawn_with_pid_entry [of env p s1 q s2] by auto
      then obtain e where e: "registry s2 p = Some (Entry e)" ..
      from True Inr pr sp l r0 assms
      have "startServer_wait env p q s2 = Some (Inl (HealthTimeout prt t), s')"
        by (simp add: startServer_def)
      from wait_outcome [OF this e] show ?thesis by simp
    qed
  qed
qed

text \<open>
  Claim C2, at the input where the code departs from it. \<^verbatim>\<open>spawn\<close> cannot start the
  process and returns a handle without a pid. The call is not rejected: it resolves to
  the port it allocated, and the registry holds no entry for the path, neither when the
  call returns nor after the handle's \<^verbatim>\<open>error\<close> listener has run.
\<close>

theorem ensure_spawn_failure_resolves:
  "startServer no_binary_env ''/proj'' initial_manager = Some (Inr 4097, after_failed_spawn)
   \<and> ProjectRegistry_get (registry after_failed_spawn) ''/proj'' = Undefined
   \<and> ProjectRegistry_get (registry (error_event 1010 0 after_failed_spawn)) ''/proj'' = Undefined"
  by (simp add: startServer_def initial_lookup no_binary_spawn)
     (simp add: after_failed_spawn_def error_event_def proc_on_error_def registry_ops)

subsection \<open>Claim C3: stopping\<close>

text \<open>The signals of a call do not touch the store or the tracked processes.\<close>

lemma fold_keeps:
  assumes "\<And>x s. registry (f x s) = registry s \<and> processes (f x s) = processes s"
  shows "registry (fold f xs s) = registry s \<and> processes (fold f xs s) = processes s"
  by (induction xs arbitrary: s) (simp_all add: assms)

lemma killAttachProcesses_keeps:
  "registry (killAttachProcesses ps os prt s) = registry s"
  "processes (killAttachProcesses ps os prt s) = processes s"
proof -
  have "registry (fold (\<lambda>target s'. case process_kill os target SIGTERM s' of
                                       (Inl e, s'') \<Rightarrow> s''
                                     | (Inr u, s'') \<Rightarrow> s'') pids s) = registry s
      \<and> processes (fold (\<lambda>target s'. case process_kill os target SIGTERM s' of
                                       (Inl e, s'') \<Rightarrow> s''
                                     | (Inr u, s'') \<Rightarrow> s'') pids s) = processes s" for pids
    by (rule fold_keeps) (simp add: process_kill_def)
  then show "registry (killAttachProcesses ps os prt s) = registry s"
    and "processes (killAttachProcesses ps os prt s) = processes s"
    by (simp_all add: killAttachProcesses_def Let_def)
qed

text \<open>A path whose read is falsy: the call returns \<^verbatim>\<open>false\<close> and has done nothing.\<close>

lemma stop_unread:
  "ProjectRegistry_get (registry s) p = Undefined \<Longrightarrow> stopServer env p s = (Inr False, s)"
  by (simp add: stopServer_def)

text \<open>
  A path whose read is truthy, whatever the process table, the signals and the handle's
  \<^verbatim>\<open>kill\<close> do: the call returns \<^verbatim>\<open>true\<close>, and the store holds nothing under the path
  afterwards, unless the path is \<^verbatim>\<open>__proto__\<close>.
\<close>

lemma stop_read:
  assumes "ProjectRegistry_get (registry s) p \<noteq> Undefined"
  shows "fst (stopServer env p s) = Inr True"
    and "p \<noteq> ''__proto__'' \<Longrightarrow> registry (snd (stopServer env p s)) p = None"
proof -
  define entry where "entry = ProjectRegistry_get (registry s) p"
  define s1 where "s1 = killAttachProcesses (ps_aux env) (os_kill env) (value_port entry) s"
  define s2 where "s2 =
    (case processes s1 p of
       Some proc \<Rightarrow>
         (let s' = proc_kill env p proc SIGTERM s1
          in s'\<lparr>processes := (processes s')(p := None)\<rparr>)
     | None \<Rightarrow>
         (case value_pid entry of
            None \<Rightarrow> s1
          | Some target \<Rightarrow>
              (case process_kill (os_kill env) target SIGTERM s1 of
                 (Inl e, s') \<Rightarrow> s'
               | (Inr u, s') \<Rightarrow> s')))"
  define s3 where "s3 =
    s2\<lparr>registry := ProjectRegistry_update (clock env) p [SetStatus Stopped] (registry s2)\<rparr>"
  define s4 where "s4 = s3\<lparr>registry := snd (ProjectRegistry_remove p (registry s3))\<rparr>"
  have run: "stopServer env p s = (Inr True, s4)"
    using assms unfolding stopServer_def Let_def s4_def s3_def s2_def s1_def entry_def
    by (simp only: if_False)
  then show "fst (stopServer env p s) = Inr True" by simp
  have r1: "ProjectRegistry_get (registry s1) p \<noteq> Undefined"
    using assms by (simp add: s1_def killAttachProcesses_keeps)
  have r2: "ProjectRegistry_get (registry s2) p \<noteq> Undefined"
  proof (cases "processes s1 p")
    case None
    then show ?thesis
      using r1 by (simp add: s2_def process_kill_def split: option.splits)
  next
    case (Some proc)
    show ?thesis
    proof (cases "handle_kill env proc")
      case ErrorEvent
      obtain obj where "ProjectRegistry_update (clock env) p [SetStatus Error] (registry s1)
          = (registry s1)(p \<mapsto> obj)"
        using update_assigns [OF r1] by blast
      with Some ErrorEvent show ?thesis
        by (simp add: s2_def proc_kill_def proc_on_error_def Let_def)
    qed (use Some r1 in \<open>simp_all add: s2_def proc_kill_def Let_def\<close>)
  qed
  obtain obj where "ProjectRegistry_update (clock env) p [SetStatus Stopped] (registry s2)
      = (registry s2)(p \<mapsto> obj)"
    using update_assigns [OF r2] by blast
  then have r3: "registry s3 = (registry s2)(p \<mapsto> obj)"
    by (simp add: s3_def)
  assume "p \<noteq> ''__proto__''"
  with r3 have "registry s4 p = None"
    by (simp add: s4_def ProjectRegistry_remove_def)
  with run show "registry (snd (stopServer env p s)) p = None" by simp
qed

text \<open>
  So the claim holds at every path that is no name of \<^verbatim>\<open>Object.prototype\<close>, as long as the
  prototype of the store was never set: without an entry the call returns \<^verbatim>\<open>false\<close> and
  sends no signal, with an entry it returns \<^verbatim>\<open>true\<close> and the entry is gone.
\<close>

lemma stop_ordinary_path:
  assumes "registry s ''__proto__'' = None" and "p \<noteq> ''__proto__''"
    and "p \<notin> set prototype_functions"
  shows "registry s p = None \<Longrightarrow> stopServer env p s = (Inr False, s)"
    and "registry s p \<noteq> None \<Longrightarrow>
         fst (stopServer env p s) = Inr True \<and> registry (snd (stopServer env p s)) p = None"
proof -
  assume "registry s p = None"
  with assms have "ProjectRegistry_get (registry s) p = Undefined"
    by (simp add: get_ordinary_path)
  then show "stopServer env p s = (Inr False, s)" by (rule stop_unread)
next
  assume "registry s p \<noteq> None"
  with assms have "ProjectRegistry_get (registry s) p \<noteq> Undefined"
    by (auto simp: get_ordinary_path)
  from stop_read [OF this] assms(2)
  show "fst (stopServer env p s) = Inr True \<and> registry (snd (stopServer env p s)) p = None"
    by simp
qed

text \<open>A worked case: the project's worker cannot be signalled, and the call still returns
  \<^verbatim>\<open>true\<close> and leaves no entry; a path that was never registered gives \<^verbatim>\<open>false\<close>.\<close>

lemma stop_with_failing_signals:
  "fst (stopServer failing_stop_env ''/proj'' second_worker_state) = Inr True
   \<and> registry (snd (stopServer failing_stop_env ''/proj'' second_worker_state)) ''/proj'' = None
   \<and> stopServer failing_stop_env ''/other'' second_worker_state = (Inr False, second_worker_state)"
  using stop_ordinary_path [of second_worker_state "''/proj''" failing_stop_env]
        stop_ordinary_path [of second_worker_state "''/other''" failing_stop_env]
  by (simp add: scenario_states prototype_functions_def)

lemma no_attach_line_without_port:
  "getAttachProcessPIDs (ps_aux failing_stop_env) None = []"
  unfolding failing_stop_env_def by code_simp

text \<open>
  Claim C3, at the input where the code departs from it. No project was ever registered,
  and \<^verbatim>\<open>stopServer\<close> is called with the path \<^verbatim>\<open>constructor\<close>. The store holds nothing under
  that key, but the read gives the function that every plain object inherits under it,
  which is truthy: the call does not return \<^verbatim>\<open>false\<close>. It looks for terminals attached to
  the port \<^verbatim>\<open>undefined\<close>, sends no signal, writes an object with the status \<open>stopped\<close>
  under the key, deletes it again, and returns \<^verbatim>\<open>true\<close>. The same happens beside a
  registered project. A path that no object inherits, \<^verbatim>\<open>/other\<close>, gives \<^verbatim>\<open>false\<close> in the
  same state.
\<close>

theorem stop_inherited_name_returns_true:
  "registry initial_manager ''constructor'' = None
   \<and> ProjectRegistry_get (registry initial_manager) ''constructor'' = Truthy
   \<and> stopServer failing_stop_env ''constructor'' initial_manager = (Inr True, initial_manager)
   \<and> registry second_worker_state ''constructor'' = None
   \<and> stopServer failing_stop_env ''constructor'' second_worker_state
       = (Inr True, second_worker_state)
   \<and> stopServer failing_stop_env ''/other'' initial_manager = (Inr False, initial_manager)"
proof (intro conjI)
  show "stopServer failing_stop_env ''/other'' initial_manager = (Inr False, initial_manager)"
    by (simp add: stopServer_def initial_manager_def registry_ops)
  show "registry initial_manager ''constructor'' = None"
    by (simp add: initial_manager_def)
  show "ProjectRegistry_get (registry initial_manager) ''constructor'' = Truthy"
    by (simp add: initial_manager_def registry_ops)
  show "stopServer failing_stop_env ''constructor'' initial_manager = (Inr True, initial_manager)"
    by (simp add: stopServer_def killAttachProcesses_def no_attach_line_without_port Let_def
        initial_manager_def registry_ops)
  show "registry second_worker_state ''constructor'' = None"
    by (simp add: scenario_states)
  show "stopServer failing_stop_env ''constructor'' second_worker_state
      = (Inr True, second_worker_state)"
    by (simp add: stopServer_def killAttachProcesses_def no_attach_line_without_port Let_def
        scenario_states registry_ops)
qed

subsection \<open>Claim C4: the exit of a worker\<close>

text \<open>
  Claim C4. When a spawned process exits, with whatever exit code, the path of the call that
  spawned it has no tracked process afterwards, and the registry entry of that path, if
  there is one, has status \<open>stopped\<close> and no session; the exit code changes nothing in the
  outcome.
\<close>

theorem exit_listener_contract:
  "i < length (spawned s) \<and> fst (spawned s ! i) = p \<longrightarrow>
     processes (exit_event now i code s) p = None
     \<and> (\<forall>e. ProjectRegistry_get (registry s) p = Stored (Entry e) \<longrightarrow>
           ProjectRegistry_get (registry (exit_event now i code s)) p
             = Stored (Entry (e\<lparr>status := Stopped, sessionId := None, lastActivity := now\<rparr>)))
     \<and> exit_event now i code s = exit_event now i (Some 0) s"
  by (simp add: exit_event_def proc_on_exit_def get_Stored_iff update_entry Let_def)

text \<open>The scenario of the spec: the worker exits with code 1 right after it was spawned,
  before it was ever healthy.\<close>

theorem exit_listener_contract_witness:
  "startServer_spawn slow_worker_env ''/proj'' initial_manager = (Inr (4097, True), starting_state)
   \<and> ProjectRegistry_get (registry starting_state) ''/proj''
       = Stored (Entry (worker_entry 4097 501 Starting 1000 1000))
   \<and> processes starting_state ''/proj'' = Some 501
   \<and> processes (exit_event 1200 0 (Some 1) starting_state) ''/proj'' = None
   \<and> ProjectRegistry_get (registry (exit_event 1200 0 (Some 1) starting_state)) ''/proj''
       = Stored (Entry (worker_entry 4097 501 Stopped 1000 1200))"
proof -
  have h: "0 < length (spawned starting_state) \<and> fst (spawned starting_state ! 0) = ''/proj''"
    by (simp add: scenario_states)
  have e: "ProjectRegistry_get (registry starting_state) ''/proj''
      = Stored (Entry (worker_entry 4097 501 Starting 1000 1000))"
    by (simp add: scenario_states ProjectRegistry_get_def)
  have p: "processes starting_state ''/proj'' = Some 501"
    by (simp add: scenario_states)
  from exit_listener_contract [of 0 starting_state "''/proj''" 1200 "Some 1"] h
  have "processes (exit_event 1200 0 (Some 1) starting_state) ''/proj'' = None"
    and "\<forall>e. ProjectRegistry_get (registry starting_state) ''/proj'' = Stored (Entry e) \<longrightarrow>
           ProjectRegistry_get (registry (exit_event 1200 0 (Some 1) starting_state)) ''/proj''
             = Stored (Entry (e\<lparr>status := Stopped, sessionId := None, lastActivity := 1200\<rparr>))"
    by blast+
  with e p slow_worker_spawn show ?thesis
    by (simp add: worker_entry_def)
qed

subsection \<open>Claim C9: two calls for one path\<close>







subsection \<open>Claim C7: one pass of the forwarding loop\<close>

lemmas hub_ops =
  hub_run_def initial_hub_def addConnection_def res_on_close_def
  startEventForwarding_begin_def startEventForwarding_finally_def
  startEventForwarding_catch_def forward_event_def broadcast_def write_to_def
  retry_callback_def stopEventForwarding_def ProjectRegistry_get_def set_add_def
  set_delete_def is_forwarded_type_def Let_def

lemmas hub_scenarios =
  served_registry_def worker_entry_def two_sinks_trace_def disconnect_trace_def
  reconnect_trace_def duplicate_trace_def message_created_def server_connected_def
  never_throws_def first_sink_throws_def

text \<open>A broadcast writes to the sinks in order; a sink whose write throws is logged and
  the next one is written to.\<close>

lemma fold_write_to:
  "written (fold (write_to wt ev msg) rs h)
     = written h @ map (\<lambda>res. (res, msg)) (filter (\<lambda>res. \<not> wt res) rs)
   \<and> failed_writes (fold (write_to wt ev msg) rs h)
     = failed_writes h @ map (\<lambda>res. (res, ev)) (filter wt rs)
   \<and> connections (fold (write_to wt ev msg) rs h) = connections h
   \<and> forwardings (fold (write_to wt ev msg) rs h) = forwardings h
   \<and> activeStreams (fold (write_to wt ev msg) rs h) = activeStreams h
   \<and> aborted (fold (write_to wt ev msg) rs h) = aborted h"
  by (induction rs arbitrary: h) (simp_all add: write_to_def)

text \<open>
  Claim C7, as amended. Take an event that the loop reads while its controller's signal is
  not aborted. If the event's type is one of the six forwarded types, the message is
  written to every sink that the path has, in order: it reaches each sink whose write does
  not throw, and each throwing sink is logged. If the type is any other, or is missing,
  nothing is written and nothing is logged. In both cases the sinks stay as they were, and
  the call stays in its loop as long as the path has sinks. An event that is read when the
  signal is aborted is written to no sink and ends the call.
\<close>

theorem forward_event_contract:
  "(\<not> aborted h c \<longrightarrow>
      (is_forwarded_type (Some t) \<longrightarrow>
         written (forward_event wt c p \<lparr>event_type = Some t, properties = d\<rparr> h)
           = written h @ map (\<lambda>res. (res, sse_message t d))
                           (filter (\<lambda>res. \<not> wt res) (current_sinks h p))
         \<and> failed_writes (forward_event wt c p \<lparr>event_type = Some t, properties = d\<rparr> h)
           = failed_writes h @ map (\<lambda>res. (res, t)) (filter wt (current_sinks h p)))
      \<and> (\<not> is_forwarded_type ty \<longrightarrow>
         written (forward_event wt c p \<lparr>event_type = ty, properties = d\<rparr> h) = written h
         \<and> failed_writes (forward_event wt c p \<lparr>event_type = ty, properties = d\<rparr> h)
           = failed_writes h)
      \<and> connections (forward_event wt c p ev h) = connections h
      \<and> (connections h p \<noteq> None \<longrightarrow>
           forwardings (forward_event wt c p ev h) = forwardings h))
   \<and> (aborted h c \<longrightarrow>
        written (forward_event wt c p ev h) = written h
        \<and> failed_writes (forward_event wt c p ev h) = failed_writes h
        \<and> forwardings (forward_event wt c p ev h) c = None)
   \<and> (is_forwarded_type ty \<longleftrightarrow>
        ty \<in> Some ` {''message.created'', ''message.updated'', ''message.completed'',
                    ''part.updated'', ''permission.requested'', ''session.updated''})"
proof (intro conjI impI)
  assume live: "\<not> aborted h c"
  { assume "is_forwarded_type (Some t)"
    with live
    show "written (forward_event wt c p \<lparr>event_type = Some t, properties = d\<rparr> h)
           = written h @ map (\<lambda>res. (res, sse_message t d))
                           (filter (\<lambda>res. \<not> wt res) (current_sinks h p))"
      by (cases "connections h p")
         (simp_all add: forward_event_def broadcast_def fold_write_to Let_def
            startEventForwarding_finally_def current_sinks_def)
    from \<open>is_forwarded_type (Some t)\<close> live
    show "failed_writes (forward_event wt c p \<lparr>event_type = Some t, properties = d\<rparr> h)
           = failed_writes h @ map (\<lambda>res. (res, t)) (filter wt (current_sinks h p))"
      by (cases "connections h p")
         (simp_all add: forward_event_def broadcast_def fold_write_to Let_def
            startEventForwarding_finally_def current_sinks_def) }
  { assume "\<not> is_forwarded_type ty"
    with live
    show "written (forward_event wt c p \<lparr>event_type = ty, properties = d\<rparr> h) = written h"
      by (auto simp: forward_event_def Let_def startEventForwarding_finally_def
          split: option.splits)
    from \<open>\<not> is_forwarded_type ty\<close> live
    show "failed_writes (forward_event wt c p \<lparr>event_type = ty, properties = d\<rparr> h)
        = failed_writes h"
      by (auto simp: forward_event_def Let_def startEventForwarding_finally_def
          split: option.splits) }
  from live show "connections (forward_event wt c p ev h) = connections h"
    by (simp add: forward_event_def broadcast_def fold_write_to Let_def
        startEventForwarding_finally_def split: option.splits)
  { assume "connections h p \<noteq> None"
    with live show "forwardings (forward_event wt c p ev h) = forwardings h"
      by (auto simp: forward_event_def broadcast_def fold_write_to Let_def
          split: option.splits) }
next
  assume dead: "aborted h c"
  then show "written (forward_event wt c p ev h) = written h"
    and "failed_writes (forward_event wt c p ev h) = failed_writes h"
    and "forwardings (forward_event wt c p ev h) c = None"
    by (simp_all add: forward_event_def startEventForwarding_finally_def)
next
  show "is_forwarded_type ty \<longleftrightarrow>
        ty \<in> Some ` {''message.created'', ''message.updated'', ''message.completed'',
                    ''part.updated'', ''permission.requested'', ''session.updated''}"
    by (auto simp: is_forwarded_type_def)
qed

lemma two_sinks_facts:
  "\<not> aborted (hub_run served_registry two_sinks_trace initial_hub) 0"
  "connections (hub_run served_registry two_sinks_trace initial_hub) ''/proj'' = Some [1, 2]"
  "written (hub_run served_registry two_sinks_trace initial_hub) = []"
  "failed_writes (hub_run served_registry two_sinks_trace initial_hub) = []"
  "forwardings (hub_run served_registry two_sinks_trace initial_hub) 0 = Some (''/proj'', Streaming)"
  by (simp_all add: hub_ops hub_scenarios)

text \<open>Two sinks, of which the first throws: the second still gets the message, the loop
  goes on, and an event of another type reaches no one.\<close>

theorem forward_event_contract_witness:
  "\<not> aborted (hub_run served_registry two_sinks_trace initial_hub) 0
   \<and> connections (hub_run served_registry two_sinks_trace initial_hub) ''/proj'' = Some [1, 2]
   \<and> is_forwarded_type (Some ''message.created'')
   \<and> \<not> is_forwarded_type (Some ''server.connected'')
   \<and> written (forward_event first_sink_throws 0 ''/proj'' message_created
        (hub_run served_registry two_sinks_trace initial_hub))
       = [(2, sse_message ''message.created'' ''{}'')]
   \<and> failed_writes (forward_event first_sink_throws 0 ''/proj'' message_created
        (hub_run served_registry two_sinks_trace initial_hub))
       = [(1, ''message.created'')]
   \<and> written (forward_event first_sink_throws 0 ''/proj'' server_connected
        (hub_run served_registry two_sinks_trace initial_hub)) = []
   \<and> forwardings (forward_event first_sink_throws 0 ''/proj'' message_created
        (hub_run served_registry two_sinks_trace initial_hub)) 0 = Some (''/proj'', Streaming)"
proof -
  have a: "is_forwarded_type (Some ''message.created'')"
    and b: "\<not> is_forwarded_type (Some ''server.connected'')"
    by (simp_all add: is_forwarded_type_def)
  have s: "current_sinks (hub_run served_registry two_sinks_trace initial_hub) ''/proj'' = [1, 2]"
    by (simp add: current_sinks_def two_sinks_facts)
  from forward_event_contract
         [where h = "hub_run served_registry two_sinks_trace initial_hub" and c = 0
            and p = "''/proj''" and t = "''message.created''"
            and ty = "Some ''server.connected''" and d = "''{}''" and wt = first_sink_throws
            and ev = message_created]
       two_sinks_facts a b s
  show ?thesis by (simp add: first_sink_throws_def message_created_def server_connected_def)
qed

text \<open>
  The claim as it stands is about every event that the loop reads. It fails for an event
  read by a call whose signal is aborted: the first sink has closed, a second sink has
  subscribed since, the first call's stream produces a \<^verbatim>\<open>message.created\<close> event, and
  the event is written to no sink although the path has one.
\<close>

theorem forward_event_counterexample:
  "connections (hub_run served_registry reconnect_trace initial_hub) ''/proj'' = Some [2]
   \<and> forwardings (hub_run served_registry reconnect_trace initial_hub) 0
       = Some (''/proj'', Streaming)
   \<and> aborted (hub_run served_registry reconnect_trace initial_hub) 0
   \<and> is_forwarded_type (event_type message_created)
   \<and> written (hub_run served_registry reconnect_trace initial_hub) = []
   \<and> written (hub_step served_registry (StreamYields 0 message_created never_throws)
        (hub_run served_registry reconnect_trace initial_hub)) = []
   \<and> failed_writes (hub_step served_registry (StreamYields 0 message_created never_throws)
        (hub_run served_registry reconnect_trace initial_hub)) = []"
  by (simp add: hub_ops hub_scenarios)

subsection \<open>Claim C8: upstream streams per path\<close>

text \<open>
  Claim C8, at the input where the code departs from it. A sink subscribes and the upstream
  stream opens; the sink closes, which aborts the controller, but the call stays in its
  loop with its stream open until the stream's next event. A second sink subscribes before
  that event: a second stream opens, and the path has two open upstream streams. When the
  first call then reads an event and leaves, its \<^verbatim>\<open>finally\<close> block takes the second
  call's controller out of \<^verbatim>\<open>activeStreams\<close>, so that a third sink opens a third stream
  beside the second, neither of them aborted.
\<close>

theorem reconnect_opens_second_stream:
  "connections (hub_run served_registry disconnect_trace initial_hub) ''/proj'' = None
   \<and> aborted (hub_run served_registry disconnect_trace initial_hub) 0
   \<and> activeStreams (hub_run served_registry disconnect_trace initial_hub) ''/proj'' = None
   \<and> open_streams (hub_run served_registry disconnect_trace initial_hub) ''/proj'' = [0]
   \<and> connections (hub_run served_registry reconnect_trace initial_hub) ''/proj'' = Some [2]
   \<and> open_streams (hub_run served_registry reconnect_trace initial_hub) ''/proj'' = [0, 1]
   \<and> open_streams (hub_run served_registry duplicate_trace initial_hub) ''/proj'' = [1, 2]
   \<and> \<not> aborted (hub_run served_registry duplicate_trace initial_hub) 1
   \<and> \<not> aborted (hub_run served_registry duplicate_trace initial_hub) 2"
  by (simp add: hub_ops hub_scenarios open_streams_def upt_rec)

end
